theory Spec2Isabelle
  imports Main "HOL-Library.Log_Nat"
begin

section \<open>Python values\<close>

text \<open>
  The hooks receive and return dynamically typed Python objects: the envelope is a
  \<open>dict\<close> (or its serialised \<open>str\<close>), its entries are lists, dicts, strings and numbers.
  They are modelled by the JSON-shaped values below. A Python \<open>str\<close> is the list of its
  code points, for code points below 256; a \<open>dict\<close> is an association list in insertion
  order; a finite \<open>float\<close> is the rational number it denotes. Values are trees: two
  entries of an envelope never share a mutable object.
\<close>

datatype json =
    JNull
  | JBool bool
  | JInt int
  | JFloat rat
  | JStr string
  | JList "json list"
  | JObj "(string \<times> json) list"

type_synonym jdict = "(string \<times> json) list"

text \<open>The exceptions the modelled code can raise.\<close>

datatype exn =
    JSONDecodeError
  | AttributeError
  | KeyError
  | IndexError
  | TypeError
  | ValueError

text \<open>\<open>bool(x)\<close>: the truth value the source's \<open>if x\<close>, \<open>not x\<close>, \<open>x or y\<close> test.\<close>

fun truthy :: "json \<Rightarrow> bool" where
  "truthy JNull = False"
| "truthy (JBool b) = b"
| "truthy (JInt i) = (i \<noteq> 0)"
| "truthy (JFloat r) = (r \<noteq> 0)"
| "truthy (JStr s) = (s \<noteq> [])"
| "truthy (JList xs) = (xs \<noteq> [])"
| "truthy (JObj kvs) = (kvs \<noteq> [])"

text \<open>\<open>x or y\<close> on values.\<close>

definition py_or :: "json \<Rightarrow> json \<Rightarrow> json" where
  "py_or x y = (if truthy x then x else y)"

text \<open>\<open>d.get(key, default)\<close>; only a dict has the method.\<close>

fun dict_get :: "json \<Rightarrow> string \<Rightarrow> json \<Rightarrow> exn + json" where
  "dict_get (JObj kvs) k dflt = Inr (case map_of kvs k of None \<Rightarrow> dflt | Some v \<Rightarrow> v)"
| "dict_get _ k dflt = Inl AttributeError"

text \<open>\<open>d[key] = v\<close> on a dict: an existing key keeps its place, a new one goes last.\<close>

fun dict_set :: "jdict \<Rightarrow> string \<Rightarrow> json \<Rightarrow> jdict" where
  "dict_set [] k v = [(k, v)]"
| "dict_set ((k', v') # kvs) k v =
     (if k' = k then (k, v) # kvs else (k', v') # dict_set kvs k v)"

text \<open>\<open>x[key]\<close> with a string key.\<close>

fun getitem_key :: "json \<Rightarrow> string \<Rightarrow> exn + json" where
  "getitem_key (JObj kvs) k = (case map_of kvs k of None \<Rightarrow> Inl KeyError | Some v \<Rightarrow> Inr v)"
| "getitem_key _ k = Inl TypeError"

text \<open>\<open>xs[i]\<close> on a sequence: a negative index counts from the end.\<close>

definition seq_index :: "'a list \<Rightarrow> int \<Rightarrow> exn + 'a" where
  "seq_index xs i =
     (if 0 \<le> i \<and> i < int (length xs) then Inr (xs ! nat i)
      else if i < 0 \<and> - i \<le> int (length xs) then Inr (xs ! nat (int (length xs) + i))
      else Inl IndexError)"

text \<open>\<open>x[i]\<close> with an integer index; a dict of string keys has no integer key.\<close>

fun getitem_int :: "json \<Rightarrow> int \<Rightarrow> exn + json" where
  "getitem_int (JList xs) i = seq_index xs i"
| "getitem_int (JStr s) i = map_sum id (\<lambda>c. JStr [c]) (seq_index s i)"
| "getitem_int (JObj kvs) i = Inl KeyError"
| "getitem_int _ i = Inl TypeError"

text \<open>\<open>xs[:n]\<close>: a negative bound counts from the end.\<close>

definition slice_to :: "'a list \<Rightarrow> int \<Rightarrow> 'a list" where
  "slice_to xs n = (if n < 0 then take (nat (int (length xs) + n)) xs else take (nat n) xs)"

text \<open>\<open>xs.insert(i, x)\<close>: the index is clamped to the list, a negative one counts from the end.\<close>

definition list_insert :: "'a list \<Rightarrow> int \<Rightarrow> 'a \<Rightarrow> 'a list" where
  "list_insert xs i x =
     (let n = int (length xs);
          j = (if i < 0 then max 0 (n + i) else min n i)
      in take (nat j) xs @ x # drop (nat j) xs)"

subsection \<open>Strings\<close>

text \<open>\<open>str.isspace\<close> of one character, which is also the class \<open>\s\<close> of \<open>re\<close>.\<close>

definition py_isspace :: "char \<Rightarrow> bool" where
  "py_isspace c =
     (let n = (of_char c :: nat)
      in (9 \<le> n \<and> n \<le> 13) \<or> (28 \<le> n \<and> n \<le> 32) \<or> n = 133 \<or> n = 160)"

text \<open>The class \<open>\w\<close> of \<open>re\<close> on a \<open>str\<close>: alphanumeric, or the underscore.\<close>

definition py_isword :: "char \<Rightarrow> bool" where
  "py_isword c =
     (let n = (of_char c :: nat)
      in (48 \<le> n \<and> n \<le> 57) \<or> (65 \<le> n \<and> n \<le> 90) \<or> n = 95 \<or> (97 \<le> n \<and> n \<le> 122)
         \<or> n = 170 \<or> n = 178 \<or> n = 179 \<or> n = 181 \<or> n = 185 \<or> n = 186
         \<or> (188 \<le> n \<and> n \<le> 190) \<or> (192 \<le> n \<and> n \<le> 214) \<or> (216 \<le> n \<and> n \<le> 246)
         \<or> 248 \<le> n)"

text \<open>\<open>str.lower\<close>.\<close>

definition lower_char :: "char \<Rightarrow> char" where
  "lower_char c =
     (let n = (of_char c :: nat)
      in if (65 \<le> n \<and> n \<le> 90) \<or> (192 \<le> n \<and> n \<le> 222 \<and> n \<noteq> 215)
         then char_of (n + 32) else c)"

definition lower :: "string \<Rightarrow> string" where
  "lower s = map lower_char s"

text \<open>\<open>str.strip()\<close>.\<close>

definition strip :: "string \<Rightarrow> string" where
  "strip s = rev (dropWhile py_isspace (rev (dropWhile py_isspace s)))"

fun starts_with :: "string \<Rightarrow> string \<Rightarrow> bool" where
  "starts_with s [] = True"
| "starts_with [] (p # ps) = False"
| "starts_with (c # cs) (p # ps) = (c = p \<and> starts_with cs ps)"

text \<open>\<open>needle in s\<close> on strings.\<close>

fun contains :: "string \<Rightarrow> string \<Rightarrow> bool" where
  "contains [] needle = (needle = [])"
| "contains (c # cs) needle = (starts_with (c # cs) needle \<or> contains cs needle)"

text \<open>\<open>sep.join(xs)\<close>.\<close>

fun join :: "string \<Rightarrow> string list \<Rightarrow> string" where
  "join sep [] = []"
| "join sep [x] = x"
| "join sep (x # y # ys) = x @ sep @ join sep (y # ys)"

text \<open>\<open>str(n)\<close> of an integer.\<close>

definition digit_char :: "int \<Rightarrow> char" where
  "digit_char d = char_of (48 + d)"

function show_digits :: "int \<Rightarrow> string" where
  "show_digits n =
     (if n < 10 then [digit_char n] else show_digits (n div 10) @ [digit_char (n mod 10)])"
  by pat_completeness auto
termination
  by (relation "measure nat") auto

declare show_digits.simps [simp del]

definition show_int :: "int \<Rightarrow> string" where
  "show_int i = (if i < 0 then CHR ''-'' # show_digits (- i) else show_digits i)"

definition show_nat :: "nat \<Rightarrow> string" where
  "show_nat n = show_digits (int n)"

text \<open>
  \<open>str(x)\<close>, which an f-string and \<open>str.format\<close> apply to a value. It is the string
  itself, \<open>None\<close>, \<open>True\<close>, \<open>False\<close> and the decimal digits of an integer; the rendering
  of floats, lists and dicts is left to the parameter \<open>render\<close>.
\<close>

fun py_str :: "(json \<Rightarrow> string) \<Rightarrow> json \<Rightarrow> string" where
  "py_str render (JStr s) = s"
| "py_str render JNull = ''None''"
| "py_str render (JBool b) = (if b then ''True'' else ''False'')"
| "py_str render (JInt i) = show_int i"
| "py_str render v = render v"

subsection \<open>Floats\<close>

text \<open>
  A \<open>float\<close> is an IEEE 754 double. A finite double is the rational it denotes, and an
  operation rounds its exact result to the nearest double, ties to the even mantissa.
  The exponent is not bounded: the model is exact for results whose magnitude lies in
  the normal range of doubles (no overflow, no subnormal result).
\<close>

definition round_half_even :: "rat \<Rightarrow> int" where
  "round_half_even x =
     (let f = \<lfloor>x\<rfloor>; d = x - of_int f
      in if d < 1 / 2 then f
         else if 1 / 2 < d then f + 1
         else if even f then f else f + 1)"

definition pow2 :: "int \<Rightarrow> rat" where
  "pow2 k = (if 0 \<le> k then 2 ^ nat k else 1 / 2 ^ nat (- k))"

text \<open>The exponent \<open>e\<close> with \<open>2 ^ e \<le> x < 2 ^ (e + 1)\<close>, for a positive \<open>x\<close>.\<close>

definition log2_floor :: "rat \<Rightarrow> int" where
  "log2_floor x =
     (let (p, q) = quotient_of x;
          a = bitlen p - bitlen q
      in if pow2 a \<le> x then a else a - 1)"

definition round_to_double :: "rat \<Rightarrow> rat" where
  "round_to_double x =
     (if x = 0 then 0
      else let u = pow2 (log2_floor \<bar>x\<bar> - 52)
           in of_int (round_half_even (x / u)) * u)"

text \<open>A decimal literal of the source, \<open>float(n)\<close> of an integer, and the operations.\<close>

definition float_lit :: "rat \<Rightarrow> rat" where
  "float_lit x = round_to_double x"

definition float_of_int :: "int \<Rightarrow> rat" where
  "float_of_int n = round_to_double (of_int n)"

definition fmul :: "rat \<Rightarrow> rat \<Rightarrow> rat" where
  "fmul a b = round_to_double (a * b)"

definition fadd :: "rat \<Rightarrow> rat \<Rightarrow> rat" where
  "fadd a b = round_to_double (a + b)"

text \<open>
  \<open>round(x, ndigits)\<close> of a float: the decimal expansion of the exact value, rounded
  half-even to \<open>ndigits\<close> places, and read back as a double.
\<close>

definition py_round :: "rat \<Rightarrow> nat \<Rightarrow> rat" where
  "py_round x ndigits =
     round_to_double (of_int (round_half_even (x * 10 ^ ndigits)) / 10 ^ ndigits)"

subsection \<open>Regular expressions\<close>

text \<open>
  The fragment of \<open>re\<close> the source's patterns use. A cursor is the character before the
  position (none at the start of the text) and the text from the position on. Matching
  returns the cursors where a match can end, in the order in which the backtracking
  matcher of \<open>re\<close> tries them: the first is the match \<open>re\<close> reports.
\<close>

datatype cclass = Whitespace | Char_range char char

datatype regex =
    Lit string
  | Bol
  | Word_boundary
  | One cclass
  | Star cclass
  | Plus cclass
  | Seq regex regex
  | Alt regex regex

type_synonym cursor = "char option \<times> string"

fun in_class :: "cclass \<Rightarrow> char \<Rightarrow> bool" where
  "in_class Whitespace c = py_isspace c"
| "in_class (Char_range lo hi) c =
     ((of_char lo :: nat) \<le> of_char c \<and> (of_char c :: nat) \<le> of_char hi)"

text \<open>A literal character against a character of the text; \<open>ic\<close> is \<open>re.IGNORECASE\<close>.\<close>

definition char_eq :: "bool \<Rightarrow> char \<Rightarrow> char \<Rightarrow> bool" where
  "char_eq ic p c = (if ic then lower_char p = lower_char c else p = c)"

fun match_lit :: "bool \<Rightarrow> string \<Rightarrow> cursor \<Rightarrow> cursor list" where
  "match_lit ic [] cur = [cur]"
| "match_lit ic (p # ps) (prev, []) = []"
| "match_lit ic (p # ps) (prev, c # cs) =
     (if char_eq ic p c then match_lit ic ps (Some c, cs) else [])"

text \<open>Zero or more characters of a class, the longest run first.\<close>

fun match_many :: "cclass \<Rightarrow> cursor \<Rightarrow> cursor list" where
  "match_many cl (prev, []) = [(prev, [])]"
| "match_many cl (prev, c # cs) =
     (if in_class cl c then match_many cl (Some c, cs) @ [(prev, c # cs)]
      else [(prev, c # cs)])"

fun match_one :: "cclass \<Rightarrow> cursor \<Rightarrow> cursor list" where
  "match_one cl (prev, []) = []"
| "match_one cl (prev, c # cs) = (if in_class cl c then [(Some c, cs)] else [])"

text \<open>\<open>\b\<close>: exactly one of the two neighbours is a word character.\<close>

definition at_boundary :: "cursor \<Rightarrow> bool" where
  "at_boundary cur =
     ((case fst cur of None \<Rightarrow> False | Some p \<Rightarrow> py_isword p)
      \<noteq> (case snd cur of [] \<Rightarrow> False | c # _ \<Rightarrow> py_isword c))"

fun rx_match :: "bool \<Rightarrow> regex \<Rightarrow> cursor \<Rightarrow> cursor list" where
  "rx_match ic (Lit s) cur = match_lit ic s cur"
| "rx_match ic Bol cur = (if fst cur = None then [cur] else [])"
| "rx_match ic Word_boundary cur = (if at_boundary cur then [cur] else [])"
| "rx_match ic (One cl) cur = match_one cl cur"
| "rx_match ic (Star cl) cur = match_many cl cur"
| "rx_match ic (Plus cl) cur = concat (map (match_many cl) (match_one cl cur))"
| "rx_match ic (Seq r1 r2) cur = concat (map (rx_match ic r2) (rx_match ic r1 cur))"
| "rx_match ic (Alt r1 r2) cur = rx_match ic r1 cur @ rx_match ic r2 cur"

definition seq_of :: "regex list \<Rightarrow> regex" where
  "seq_of rs = foldr Seq rs (Lit [])"

definition alt_of :: "regex \<Rightarrow> regex list \<Rightarrow> regex" where
  "alt_of r rs = foldl Alt r rs"

text \<open>\<open>re.search(r, s)\<close> as a truth value: a match starts at some position of \<open>s\<close>.\<close>

fun rx_search_from :: "bool \<Rightarrow> regex \<Rightarrow> char option \<Rightarrow> string \<Rightarrow> bool" where
  "rx_search_from ic r prev [] = (rx_match ic r (prev, []) \<noteq> [])"
| "rx_search_from ic r prev (c # cs) =
     (rx_match ic r (prev, c # cs) \<noteq> [] \<or> rx_search_from ic r (Some c) cs)"

definition rx_search :: "bool \<Rightarrow> regex \<Rightarrow> string \<Rightarrow> bool" where
  "rx_search ic r s = rx_search_from ic r None s"

text \<open>
  \<open>re.sub(r, '', s)\<close>: from left to right, each match is deleted and the scan goes on
  behind it; where no match starts, or only an empty one, the character is kept.
\<close>

function rx_delete_from :: "bool \<Rightarrow> regex \<Rightarrow> char option \<Rightarrow> string \<Rightarrow> string" where
  "rx_delete_from ic r prev [] = []"
| "rx_delete_from ic r prev (c # cs) =
     (case rx_match ic r (prev, c # cs) of
        [] \<Rightarrow> c # rx_delete_from ic r (Some c) cs
      | (prev', rest') # _ \<Rightarrow>
          if length rest' < length (c # cs) then rx_delete_from ic r prev' rest'
          else c # rx_delete_from ic r (Some c) cs)"
  by pat_completeness auto
termination
  by (relation "measure (\<lambda>(ic, r, prev, s). length s)") auto

definition rx_delete :: "bool \<Rightarrow> regex \<Rightarrow> string \<Rightarrow> string" where
  "rx_delete ic r s = rx_delete_from ic r None s"

subsection \<open>Format strings\<close>

text \<open>
  \<open>template.format(key=value)\<close>, for templates made of literal text, the doubled braces
  \<open>{{\<close> and \<open>}}\<close>, and replacement fields \<open>{name}\<close> that are plain names. A template with
  anything else in a field (a conversion, a format specification, an attribute or an
  index, a nested or a numbered field) is \<open>Beyond\<close> this fragment.
\<close>

datatype fmt_outcome = Formatted string | Raises exn | Beyond

fun fmt_cons :: "string \<Rightarrow> fmt_outcome \<Rightarrow> fmt_outcome" where
  "fmt_cons s (Formatted t) = Formatted (s @ t)"
| "fmt_cons s out = out"

text \<open>A field name that is not a number (and not empty) is looked up as a keyword.\<close>

definition is_digit :: "char \<Rightarrow> bool" where
  "is_digit c = ((48::nat) \<le> of_char c \<and> (of_char c :: nat) \<le> 57)"

definition plain_name :: "string \<Rightarrow> bool" where
  "plain_name n = list_ex (\<lambda>c. \<not> is_digit c) n"

fun format_text :: "string \<Rightarrow> string \<Rightarrow> string \<Rightarrow> fmt_outcome"
  and format_field :: "string \<Rightarrow> string \<Rightarrow> string \<Rightarrow> string \<Rightarrow> fmt_outcome" where
  "format_text key val [] = Formatted []"
| "format_text key val (c # cs) =
     (if c = CHR ''{'' then
        (case cs of
           [] \<Rightarrow> Raises ValueError
         | c' # cs' \<Rightarrow>
             if c' = CHR ''{'' then fmt_cons ''{'' (format_text key val cs')
             else format_field key val [] cs)
      else if c = CHR ''}'' then
        (case cs of
           [] \<Rightarrow> Raises ValueError
         | c' # cs' \<Rightarrow>
             if c' = CHR ''}'' then fmt_cons ''}'' (format_text key val cs')
             else Raises ValueError)
      else fmt_cons [c] (format_text key val cs))"
| "format_field key val acc [] = Raises ValueError"
| "format_field key val acc (c # cs) =
     (if c = CHR ''}'' then
        (if rev acc = key then fmt_cons val (format_text key val cs)
         else if plain_name (rev acc) then Raises KeyError
         else Beyond)
      else if c \<in> set ''{[!:.'' then Beyond
      else format_field key val (c # acc) cs)"

text \<open>
  The Python-level functions the model takes as parameters: \<open>json.loads\<close> (\<open>None\<close>
  when it raises \<open>JSONDecodeError\<close>), the rendering \<open>str(x)\<close> of floats, lists and dicts,
  \<open>str.format\<close> on the templates beyond the fragment above, and the hexadecimal SHA-256
  digest.
\<close>

record runtime =
  json_loads :: "string \<Rightarrow> json option"
  render :: "json \<Rightarrow> string"
  format_beyond :: "string \<Rightarrow> json \<Rightarrow> exn + string"
  sha256_hex :: "string \<Rightarrow> string"

definition py_format :: "runtime \<Rightarrow> string \<Rightarrow> string \<Rightarrow> json \<Rightarrow> exn + string" where
  "py_format rt template key v =
     (case format_text key (py_str (render rt) v) template of
        Formatted s \<Rightarrow> Inr s
      | Raises e \<Rightarrow> Inl e
      | Beyond \<Rightarrow> format_beyond rt template v)"

text \<open>\<open>if isinstance(body, str): body = json.loads(body)\<close>.\<close>

definition parse_body :: "runtime \<Rightarrow> json \<Rightarrow> exn + json" where
  "parse_body rt body =
     (case body of
        JStr s \<Rightarrow> (case json_loads rt s of None \<Rightarrow> Inl JSONDecodeError | Some b \<Rightarrow> Inr b)
      | _ \<Rightarrow> Inr body)"

text \<open>Sequencing of computations that may raise.\<close>

definition bind :: "exn + 'a \<Rightarrow> ('a \<Rightarrow> exn + 'b) \<Rightarrow> exn + 'b" where
  "bind m f = (case m of Inl e \<Rightarrow> Inl e | Inr x \<Rightarrow> f x)"

section \<open>The search filter (pipelines/perplexity\_search.py)\<close>

record search_valves =
  perplexity_api_key :: string
  perplexity_base_url :: string
  enable_auto_search :: bool
  enable_manual_search :: bool
  search_trigger_keywords :: "string list"
  search_model :: string
  max_tokens :: int
  temperature :: rat
  top_p :: rat
  search_domains :: "string list"
  exclude_domains :: "string list"
  max_search_results :: int
  include_citations :: bool
  citation_format :: string
  search_context_template :: string

definition default_search_valves :: search_valves where
  "default_search_valves =
     \<lparr> perplexity_api_key = '''',
       perplexity_base_url = ''https://api.perplexity.ai'',
       enable_auto_search = True,
       enable_manual_search = True,
       search_trigger_keywords =
         [''search'', ''find'', ''lookup'', ''what is'', ''who is'', ''when did'',
          ''where is'', ''how to'', ''latest'', ''recent'', ''current'', ''news'',
          ''today'', ''yesterday'', ''this week'', ''this month'', ''2024'', ''2025''],
       search_model = ''llama-3.1-sonar-large-128k-online'',
       max_tokens = 1000,
       temperature = float_lit (2 / 10),
       top_p = float_lit (9 / 10),
       search_domains = [],
       exclude_domains = [''reddit.com'', ''quora.com''],
       max_search_results = 5,
       include_citations = True,
       citation_format = ''markdown'',
       search_context_template =
         ''Based on current web search results:'' @ [CHR 0x0A, CHR 0x0A]
         @ ''{search_results}'' @ [CHR 0x0A, CHR 0x0A]
         @ ''Now, please answer the user's question using this information:'' \<rparr>"

text \<open>
  The search provider: \<open>requests.post\<close> raises (no connection, timeout), or returns a
  response with a status code and a body, which \<open>response.json()\<close> decodes or rejects.
\<close>

record http_request =
  url :: string
  headers :: "(string \<times> string) list"
  payload :: json
  timeout :: nat

datatype http_result = Transport_error | Response nat "json option"

definition manual_triggers :: "string list" where
  "manual_triggers = [''search:'', ''web:'', ''find:'', ''lookup:'']"

definition question_patterns :: "regex list" where
  "question_patterns =
     [seq_of [Word_boundary, Lit ''what'', Plus Whitespace, Lit ''is'', Word_boundary],
      seq_of [Word_boundary, Lit ''who'', Plus Whitespace, Lit ''is'', Word_boundary],
      seq_of [Word_boundary, Lit ''when'', Plus Whitespace, Lit ''did'', Word_boundary],
      seq_of [Word_boundary, Lit ''where'', Plus Whitespace, Lit ''is'', Word_boundary],
      seq_of [Word_boundary, Lit ''how'', Plus Whitespace, Lit ''to'', Word_boundary],
      seq_of [Word_boundary, Lit ''why'', Plus Whitespace, Lit ''does'', Word_boundary],
      seq_of [Word_boundary, Lit ''latest'', Word_boundary],
      seq_of [Word_boundary, Lit ''recent'', Word_boundary],
      seq_of [Word_boundary, Lit ''current'', Word_boundary],
      seq_of [Word_boundary, Lit ''news'', Word_boundary],
      seq_of [Word_boundary, Lit ''today'', Word_boundary],
      seq_of [Word_boundary, Lit ''202'', One (Char_range CHR ''4'' CHR ''9''), Word_boundary]]"

text \<open>\<open>_should_perform_search\<close>; \<open>message.lower()\<close> raises on a value that is no string.\<close>

definition should_perform_search :: "search_valves \<Rightarrow> json \<Rightarrow> exn + bool" where
  "should_perform_search v message =
     (if \<not> enable_auto_search v \<and> \<not> enable_manual_search v then Inr False
      else case message of
        JStr m \<Rightarrow>
          (let message_lower = lower m in
           if enable_manual_search v
              \<and> list_ex (\<lambda>trigger. contains message_lower trigger) manual_triggers
           then Inr True
           else if enable_auto_search v then
             (if list_ex (\<lambda>keyword. contains message_lower keyword) (search_trigger_keywords v)
              then Inr True
              else if list_ex (\<lambda>pattern. rx_search False pattern message_lower) question_patterns
              then Inr True
              else Inr False)
           else Inr False)
      | _ \<Rightarrow> Inl AttributeError)"

text \<open>\<open>_clean_search_query\<close>.\<close>

definition trigger_prefix :: regex where
  "trigger_prefix =
     seq_of [Bol, alt_of (Lit ''search:'') [Lit ''web:'', Lit ''find:'', Lit ''lookup:''],
             Star Whitespace]"

definition filler_prefix :: regex where
  "filler_prefix =
     seq_of [Bol, alt_of (Lit ''can you'') [Lit ''could you'', Lit ''please'', Lit ''help me''],
             Plus Whitespace]"

definition clean_search_query :: "string \<Rightarrow> string" where
  "clean_search_query query =
     (let q1 = rx_delete True trigger_prefix query;
          q2 = rx_delete True filler_prefix q1;
          q3 = (if length q2 > 200 then take 200 q2 @ ''...'' else q2)
      in strip q3)"

text \<open>\<open>x += text\<close> with a string on the right: a string grows, a list is extended by
  the characters, anything else raises.\<close>

fun iadd_str :: "json \<Rightarrow> string \<Rightarrow> exn + json" where
  "iadd_str (JStr s) t = Inr (JStr (s @ t))"
| "iadd_str (JList xs) t = Inr (JList (xs @ map (\<lambda>c. JStr [c]) t))"
| "iadd_str _ t = Inl TypeError"

text \<open>The items of \<open>xs[:n]\<close>, for a value \<open>xs\<close> that passed \<open>if xs\<close>; a dict cannot be
  sliced (the exception is \<open>KeyError\<close> from Python 3.12 on).\<close>

fun slice_items :: "json \<Rightarrow> int \<Rightarrow> exn + json list" where
  "slice_items (JList xs) n = Inr (slice_to xs n)"
| "slice_items (JStr s) n = Inr (map (\<lambda>c. JStr [c]) (slice_to s n))"
| "slice_items _ n = Inl TypeError"

text \<open>\<open>enumerate(items, 1)\<close>.\<close>

definition enumerate1 :: "'a list \<Rightarrow> (nat \<times> 'a) list" where
  "enumerate1 xs = zip [1 ..< Suc (length xs)] xs"

definition markdown_line :: "runtime \<Rightarrow> nat \<times> json \<Rightarrow> string" where
  "markdown_line rt ic = show_nat (fst ic) @ ''. '' @ py_str (render rt) (snd ic) @ [CHR 0x0A]"

definition numbered_line :: "runtime \<Rightarrow> nat \<times> json \<Rightarrow> string" where
  "numbered_line rt ic =
     ''['' @ show_nat (fst ic) @ ''] '' @ py_str (render rt) (snd ic) @ [CHR 0x0A]"

text \<open>\<open>_format_search_results\<close>.\<close>

definition format_search_results :: "runtime \<Rightarrow> search_valves \<Rightarrow> json \<Rightarrow> json \<Rightarrow> exn + json" where
  "format_search_results rt v content citations =
     (if include_citations v \<and> truthy citations then
        (if citation_format v = ''markdown'' then
           bind (slice_items citations (max_search_results v)) (\<lambda>items.
             iadd_str content
               ([CHR 0x0A, CHR 0x0A] @ ''**Sources:**'' @ [CHR 0x0A]
                @ concat (map (markdown_line rt) (enumerate1 items))))
         else if citation_format v = ''numbered'' then
           bind (slice_items citations (max_search_results v)) (\<lambda>items.
             iadd_str content
               ([CHR 0x0A, CHR 0x0A] @ ''Sources:'' @ [CHR 0x0A]
                @ concat (map (numbered_line rt) (enumerate1 items))))
         else Inr content)
      else Inr content)"

text \<open>The request \<open>_perform_search\<close> sends; entries whose value is \<open>None\<close> are left out.\<close>

definition search_data :: "search_valves \<Rightarrow> string \<Rightarrow> jdict" where
  "search_data v search_query =
     filter (\<lambda>kv. snd kv \<noteq> JNull)
       [(''model'', JStr (search_model v)),
        (''messages'',
           JList
             [JObj [(''role'', JStr ''system''),
                    (''content'', JStr (''You are a helpful assistant that provides accurate, ''
                       @ ''up-to-date information from web search results. ''
                       @ ''Include relevant citations.''))],
              JObj [(''role'', JStr ''user''), (''content'', JStr search_query)]]),
        (''max_tokens'', JInt (max_tokens v)),
        (''temperature'', JFloat (temperature v)),
        (''top_p'', JFloat (top_p v)),
        (''search_domain_filter'',
           if search_domains v \<noteq> [] then JList (map JStr (search_domains v)) else JNull),
        (''return_citations'', JBool (include_citations v)),
        (''search_recency_filter'', JStr ''month'')]"

definition search_request :: "search_valves \<Rightarrow> string \<Rightarrow> http_request" where
  "search_request v search_query =
     \<lparr> url = perplexity_base_url v @ ''/chat/completions'',
       headers = [(''Authorization'', ''Bearer '' @ perplexity_api_key v),
                  (''Content-Type'', ''application/json'')],
       payload = JObj (search_data v search_query),
       timeout = 30 \<rparr>"

text \<open>\<open>result["choices"][0]["message"]["content"]\<close>.\<close>

definition response_content :: "json \<Rightarrow> exn + json" where
  "response_content result =
     bind (getitem_key result ''choices'') (\<lambda>choices.
     bind (getitem_int choices 0) (\<lambda>choice.
     bind (getitem_key choice ''message'') (\<lambda>message.
     getitem_key message ''content'')))"

text \<open>
  \<open>_perform_search\<close>: the formatted result, or \<open>None\<close> for a status other than 200 and
  for every exception, which the function catches.
\<close>

definition perform_search ::
  "runtime \<Rightarrow> (http_request \<Rightarrow> http_result) \<Rightarrow> search_valves \<Rightarrow> json \<Rightarrow> json option" where
  "perform_search rt post v query =
     (case query of
        JStr q \<Rightarrow>
          (let search_query = clean_search_query q in
           case post (search_request v search_query) of
             Transport_error \<Rightarrow> None
           | Response status body \<Rightarrow>
               if status = 200 then
                 (case body of
                    None \<Rightarrow> None
                  | Some result \<Rightarrow>
                      (case bind (response_content result) (\<lambda>content.
                            bind (dict_get result ''citations'' (JList [])) (\<lambda>citations.
                            format_search_results rt v content citations)) of
                         Inl e \<Rightarrow> None
                       | Inr formatted_result \<Rightarrow> Some formatted_result))
               else None)
      | _ \<Rightarrow> None)"

text \<open>\<open>_add_search_context\<close>: the new list of messages (the source mutates the list).\<close>

definition add_search_context :: "runtime \<Rightarrow> search_valves \<Rightarrow> json \<Rightarrow> json \<Rightarrow> exn + json" where
  "add_search_context rt v all_messages search_results =
     bind (py_format rt (search_context_template v) ''search_results'' search_results)
       (\<lambda>search_context.
          case all_messages of
            JList msgs \<Rightarrow>
              Inr (JList (list_insert msgs (- 1)
                     (JObj [(''role'', JStr ''system''), (''content'', JStr search_context)])))
          | _ \<Rightarrow> Inl AttributeError)"

text \<open>
  \<open>inlet\<close>: the returned envelope, or the exception that leaves the hook. The list
  \<open>all_messages\<close> is the object stored under \<open>messages\<close>, so the insertion shows in the
  returned envelope. The \<open>try\<close> covers the search and the insertion only.
\<close>

definition search_inlet ::
  "runtime \<Rightarrow> (http_request \<Rightarrow> http_result) \<Rightarrow> search_valves \<Rightarrow> json \<Rightarrow> jdict option
     \<Rightarrow> exn + json" where
  "search_inlet rt post v body0 user =
     bind (parse_body rt body0) (\<lambda>body.
     bind (dict_get body ''messages'' (JList [])) (\<lambda>all_messages.
     if \<not> truthy all_messages then Inr body
     else
       bind (getitem_int all_messages (- 1)) (\<lambda>last.
       bind (dict_get last ''content'' (JStr [])) (\<lambda>last_message.
       bind (should_perform_search v last_message) (\<lambda>should_search.
       if should_search \<and> perplexity_api_key v \<noteq> [] then
         (case perform_search rt post v last_message of
            None \<Rightarrow> Inr body
          | Some search_results \<Rightarrow>
              if truthy search_results then
                (case add_search_context rt v all_messages search_results of
                   Inl e \<Rightarrow> Inr body
                 | Inr msgs' \<Rightarrow>
                     (case body of
                        JObj kvs \<Rightarrow> Inr (JObj (dict_set kvs ''messages'' msgs'))
                      | _ \<Rightarrow> Inr body))
              else Inr body)
       else Inr body)))))"

text \<open>\<open>outlet\<close> returns its argument.\<close>

definition search_outlet :: "search_valves \<Rightarrow> json \<Rightarrow> jdict option \<Rightarrow> exn + json" where
  "search_outlet v body user = Inr body"

section \<open>The memory filter (pipelines/mem0\_memory\_filter.py)\<close>

text \<open>
  The options the hooks read. The connection settings of the vector store and of the
  models only reach \<open>Memory.from_config\<close>, whose outcome is a parameter below.
\<close>

record memory_valves =
  store_cycles :: int
  mem_zero_user :: string
  enable_memory_storage :: bool
  enable_memory_retrieval :: bool
  enable_memory_logging :: bool
  max_memories_retrieved :: int
  memory_relevance_threshold :: rat
  memory_context_template :: string

definition default_memory_valves :: memory_valves where
  "default_memory_valves =
     \<lparr> store_cycles = 3,
       mem_zero_user = ''bailey'',
       enable_memory_storage = True,
       enable_memory_retrieval = True,
       enable_memory_logging = True,
       max_memories_retrieved = 3,
       memory_relevance_threshold = float_lit (7 / 10),
       memory_context_template =
         ''This is your inner voice talking, you remember this about the person ''
         @ ''you're chatting with: {memory}'' \<rparr>"

text \<open>
  The state of a \<open>Pipeline\<close> object: the list \<open>self.user_messages\<close>, whether \<open>self.m\<close> is
  set, and the storage threads started so far, each with the text and the user id it
  stores (\<open>self.thread\<close> is the last of them). Waiting for the previous thread changes
  nothing here.
\<close>

record memory_state =
  user_messages :: "json list"
  m_ready :: bool
  dispatched :: "(string \<times> json) list"

definition initial_memory_state :: memory_state where
  "initial_memory_state = \<lparr> user_messages = [], m_ready = False, dispatched = [] \<rparr>"

text \<open>
  The memory library during one call of a hook: whether \<open>Memory.from_config\<close> succeeds,
  and what \<open>memory.search(query, user_id, limit)\<close> returns or raises.
\<close>

record memory_env =
  init_ok :: bool
  mem_search :: "json \<Rightarrow> json \<Rightarrow> int \<Rightarrow> exn + json"

text \<open>\<open>get_memory\<close>: the state, and whether an instance is returned (else it raises).\<close>

definition get_memory :: "memory_env \<Rightarrow> memory_state \<Rightarrow> memory_state \<times> bool" where
  "get_memory env st =
     (if m_ready st then (st, True)
      else if init_ok env then (st\<lparr>m_ready := True\<rparr>, True)
      else (st, False))"

text \<open>The strings of a list whose elements are all strings, as \<open>str.join\<close> needs.\<close>

fun all_strings :: "json list \<Rightarrow> string list option" where
  "all_strings [] = Some []"
| "all_strings (JStr s # xs) = map_option ((#) s) (all_strings xs)"
| "all_strings (_ # xs) = None"

text \<open>\<open>_store_memories\<close>: every exception ends in the handler, which clears the list.\<close>

definition store_memories :: "memory_env \<Rightarrow> memory_state \<Rightarrow> json \<Rightarrow> memory_state" where
  "store_memories env st user_id =
     (case all_strings (user_messages st) of
        None \<Rightarrow> st\<lparr>user_messages := []\<rparr>
      | Some texts \<Rightarrow>
          (let message_text = join '' '' texts;
               (st1, ok) = get_memory env st
           in if ok
              then st1\<lparr>dispatched := dispatched st1 @ [(message_text, user_id)],
                       user_messages := []\<rparr>
              else st1\<lparr>user_messages := []\<rparr>))"

text \<open>\<open>for x in xs\<close>: the items a loop or a comprehension visits.\<close>

fun py_iter :: "json \<Rightarrow> exn + json list" where
  "py_iter (JList xs) = Inr xs"
| "py_iter (JStr s) = Inr (map (\<lambda>c. JStr [c]) s)"
| "py_iter (JObj kvs) = Inr (map (\<lambda>kv. JStr (fst kv)) kvs)"
| "py_iter _ = Inl TypeError"

text \<open>\<open>mem.get("score", 0) >= threshold\<close>.\<close>

definition score_ok :: "rat \<Rightarrow> json \<Rightarrow> exn + bool" where
  "score_ok threshold mem =
     bind (dict_get mem ''score'' (JInt 0)) (\<lambda>score.
       case score of
         JInt i \<Rightarrow> Inr (threshold \<le> of_int i)
       | JFloat r \<Rightarrow> Inr (threshold \<le> r)
       | JBool b \<Rightarrow> Inr (threshold \<le> (if b then 1 else 0))
       | _ \<Rightarrow> Inl TypeError)"

fun relevant_memories :: "rat \<Rightarrow> json list \<Rightarrow> exn + json list" where
  "relevant_memories threshold [] = Inr []"
| "relevant_memories threshold (mem # mems) =
     bind (score_ok threshold mem) (\<lambda>ok.
     bind (relevant_memories threshold mems) (\<lambda>rest.
     Inr (if ok then mem # rest else rest)))"

text \<open>
  \<open>_add_memory_context\<close>: the list of messages and the state afterwards. An exception
  ends in the handler and leaves the messages as they are.
\<close>

definition add_memory_context ::
  "runtime \<Rightarrow> memory_env \<Rightarrow> memory_valves \<Rightarrow> memory_state \<Rightarrow> json \<Rightarrow> json \<Rightarrow> json
     \<Rightarrow> json \<times> memory_state" where
  "add_memory_context rt env v st all_messages last_message user_id =
     (let (st1, ok) = get_memory env st in
      if \<not> ok then (all_messages, st1)
      else
        case bind (mem_search env last_message user_id (max_memories_retrieved v)) (\<lambda>memories.
             if \<not> truthy memories then Inr all_messages
             else
               bind (py_iter memories) (\<lambda>items.
               bind (relevant_memories (memory_relevance_threshold v) items) (\<lambda>relevant.
               if relevant = [] then Inr all_messages
               else
                 bind (getitem_key (hd relevant) ''memory'') (\<lambda>best_memory.
                 bind (py_format rt (memory_context_template v) ''memory'' best_memory)
                   (\<lambda>memory_context.
                 case all_messages of
                   JList msgs \<Rightarrow>
                     Inr (JList (list_insert msgs 0
                            (JObj [(''role'', JStr ''system''),
                                   (''content'', JStr memory_context)])))
                 | _ \<Rightarrow> Inl AttributeError))))) of
          Inl e \<Rightarrow> (all_messages, st1)
        | Inr msgs' \<Rightarrow> (msgs', st1))"

text \<open>The user id of a call: \<open>user["id"]\<close> when \<open>user and user.get("id")\<close>.\<close>

definition memory_user_id :: "memory_valves \<Rightarrow> jdict option \<Rightarrow> json" where
  "memory_user_id v user =
     (case user of
        None \<Rightarrow> JStr (mem_zero_user v)
      | Some u \<Rightarrow>
          (case map_of u ''id'' of
             None \<Rightarrow> JStr (mem_zero_user v)
           | Some i \<Rightarrow> if u \<noteq> [] \<and> truthy i then i else JStr (mem_zero_user v)))"

text \<open>
  \<open>inlet\<close>: the returned envelope or the exception that leaves the hook, and the state
  afterwards. Nothing guards \<open>json.loads\<close> and the reading of the last message. The
  list \<open>all_messages\<close> is the object stored under \<open>messages\<close>: the envelope returned
  holds the list as \<open>_add_memory_context\<close> left it.
\<close>

definition memory_inlet ::
  "runtime \<Rightarrow> memory_env \<Rightarrow> memory_valves \<Rightarrow> memory_state \<Rightarrow> json \<Rightarrow> jdict option
     \<Rightarrow> (exn + json) \<times> memory_state" where
  "memory_inlet rt env v st body0 user =
     (let user_id = memory_user_id v user in
      case bind (parse_body rt body0) (\<lambda>body.
           bind (dict_get body ''messages'' (JList [])) (\<lambda>all_messages.
           if \<not> truthy all_messages then Inr (body, None)
           else
             bind (getitem_int all_messages (- 1)) (\<lambda>last.
             bind (dict_get last ''content'' (JStr [])) (\<lambda>last_message.
             Inr (body, Some (all_messages, last_message)))))) of
        Inl e \<Rightarrow> (Inl e, st)
      | Inr (body, None) \<Rightarrow> (Inr body, st)
      | Inr (body, Some (all_messages, last_message)) \<Rightarrow>
          (let st1 =
                 (if enable_memory_storage v then
                    (let st' = st\<lparr>user_messages := user_messages st @ [last_message]\<rparr>
                     in if store_cycles v \<le> int (length (user_messages st'))
                        then store_memories env st' user_id else st')
                  else st);
               (msgs', st2) =
                 (if enable_memory_retrieval v
                  then add_memory_context rt env v st1 all_messages last_message user_id
                  else (all_messages, st1))
           in (Inr (case body of
                      JObj kvs \<Rightarrow> JObj (dict_set kvs ''messages'' msgs')
                    | _ \<Rightarrow> body),
               st2)))"

section \<open>The robust memory filter (pipelines/mem0\_memory\_filter\_pipeline.py)\<close>

text \<open>The options of this file carry the names of the previous one; they get a suffix.\<close>

record robust_valves =
  store_cycles_r :: int
  mem_zero_user_r :: string
  enable_memory_storage_r :: bool
  enable_memory_search_r :: bool
  debug_mode :: bool

definition default_robust_valves :: robust_valves where
  "default_robust_valves =
     \<lparr> store_cycles_r = 3,
       mem_zero_user_r = ''bailey'',
       enable_memory_storage_r = True,
       enable_memory_search_r = True,
       debug_mode = True \<rparr>"

text \<open>
  The state of the object, as before, with two more fields: \<open>memory_available\<close>, and
  \<open>_init_failed\<close> once set. Only \<open>_handle_memory_storage\<close> appends to
  \<open>self.user_messages\<close>, and it appends strings.
\<close>

record robust_state =
  user_messages_r :: "string list"
  m_ready_r :: bool
  dispatched_r :: "(string \<times> json) list"
  memory_available :: bool
  init_failed :: bool

definition initial_robust_state :: robust_state where
  "initial_robust_state =
     \<lparr> user_messages_r = [], m_ready_r = False, dispatched_r = [],
       memory_available = False, init_failed = False \<rparr>"

text \<open>\<open>get_memory\<close>: one attempt to initialise; the state, and whether \<open>self.m\<close> is returned.\<close>

definition get_memory_r :: "memory_env \<Rightarrow> robust_state \<Rightarrow> robust_state \<times> bool" where
  "get_memory_r env st =
     (let st1 =
            (if \<not> m_ready_r st \<and> \<not> init_failed st then
               (if init_ok env then st\<lparr>m_ready_r := True, memory_available := True\<rparr>
                else st\<lparr>init_failed := True, memory_available := False\<rparr>)
             else st)
      in (st1, memory_available st1 \<and> m_ready_r st1))"

text \<open>\<open>_handle_memory_storage\<close>.\<close>

definition handle_memory_storage ::
  "memory_env \<Rightarrow> robust_valves \<Rightarrow> robust_state \<Rightarrow> string \<Rightarrow> json \<Rightarrow> robust_state" where
  "handle_memory_storage env v st message user_id =
     (let st1 = st\<lparr>user_messages_r := user_messages_r st @ [message]\<rparr> in
      if store_cycles_r v \<le> int (length (user_messages_r st1)) then
        (let (st2, memory) = get_memory_r env st1 in
         if memory then
           st2\<lparr>dispatched_r :=
                 dispatched_r st2 @ [(join '' '' (user_messages_r st2), user_id)],
               user_messages_r := []\<rparr>
         else st2\<lparr>user_messages_r := []\<rparr>)
      else st1)"

text \<open>\<open>len(x)\<close>.\<close>

fun py_len :: "json \<Rightarrow> exn + nat" where
  "py_len (JStr s) = Inr (length s)"
| "py_len (JList xs) = Inr (length xs)"
| "py_len (JObj kvs) = Inr (length kvs)"
| "py_len _ = Inl TypeError"

text \<open>\<open>_handle_memory_search\<close>: the list of messages and the state afterwards.\<close>

definition handle_memory_search ::
  "runtime \<Rightarrow> memory_env \<Rightarrow> robust_state \<Rightarrow> string \<Rightarrow> json \<Rightarrow> json list
     \<Rightarrow> json list \<times> robust_state" where
  "handle_memory_search rt env st message user_id all_messages =
     (let (st1, memory) = get_memory_r env st in
      if \<not> memory then (all_messages, st1)
      else
        case bind (mem_search env (JStr message) user_id 3) (\<lambda>memories.
             if \<not> truthy memories then Inr all_messages
             else
               bind (py_len memories) (\<lambda>n.
               if \<not> 0 < n then Inr all_messages
               else
                 bind (getitem_int memories 0) (\<lambda>best_memory.
                 let fetched_memory =
                       (case best_memory of
                          JObj kvs \<Rightarrow>
                            (case map_of kvs ''memory'' of None \<Rightarrow> JStr [] | Some f \<Rightarrow> f)
                        | _ \<Rightarrow> JStr [])
                 in if \<not> truthy fetched_memory then Inr all_messages
                    else
                      case fetched_memory of
                        JStr f \<Rightarrow>
                          if 0 < length (strip f) then
                            Inr (list_insert all_messages 0
                                   (JObj [(''role'', JStr ''system''),
                                          (''content'',
                                             JStr (''Context from your memory: '' @ f))]))
                          else Inr all_messages
                      | _ \<Rightarrow> Inl AttributeError))) of
          Inl e \<Rightarrow> (all_messages, st1)
        | Inr msgs' \<Rightarrow> (msgs', st1))"

text \<open>
  The loop over \<open>reversed(all_messages)\<close>, called on the reversed list: the stripped
  content of the first message with role \<open>user\<close> and a true content.
\<close>

datatype found = Found string | Not_found | Raised exn

fun last_user_message :: "json list \<Rightarrow> found" where
  "last_user_message [] = Not_found"
| "last_user_message (msg # msgs) =
     (case dict_get msg ''role'' JNull of
        Inl e \<Rightarrow> Raised e
      | Inr role \<Rightarrow>
          (case dict_get msg ''content'' JNull of
             Inl e \<Rightarrow> Raised e
           | Inr content \<Rightarrow>
               if role = JStr ''user'' \<and> truthy content then
                 (case content of JStr c \<Rightarrow> Found (strip c) | _ \<Rightarrow> Raised AttributeError)
               else last_user_message msgs))"

text \<open>
  \<open>inlet\<close>: the whole body is inside \<open>try\<close>, and the handler returns \<open>body\<close>, so the hook
  always returns: the envelope, and the state afterwards. Where the test of
  \<open>messages\<close> or the loop raises on a value of another type, nothing has changed yet and
  the handler returns the value as parsed.
\<close>

definition robust_inlet ::
  "runtime \<Rightarrow> memory_env \<Rightarrow> robust_valves \<Rightarrow> robust_state \<Rightarrow> json \<Rightarrow> jdict option
     \<Rightarrow> json \<times> robust_state" where
  "robust_inlet rt env v st body0 user =
     (let parsed =
            (case body0 of
               JObj kvs \<Rightarrow> Some body0
             | JStr s \<Rightarrow> json_loads rt s
             | _ \<Rightarrow> None)
      in case parsed of
           None \<Rightarrow> (body0, st)
         | Some body \<Rightarrow>
             (case body of
                JObj kvs \<Rightarrow>
                  (case map_of kvs ''messages'' of
                     None \<Rightarrow> (body, st)
                   | Some all_messages \<Rightarrow>
                       if \<not> truthy all_messages then (body, st)
                       else
                         (case all_messages of
                            JList msgs \<Rightarrow>
                              (case last_user_message (rev msgs) of
                                 Found m \<Rightarrow>
                                   if m = [] then (body, st)
                                   else
                                     (let user_id = JStr (mem_zero_user_r v);
                                          st1 = (if enable_memory_storage_r v
                                                 then handle_memory_storage env v st m user_id
                                                 else st);
                                          (msgs', st2) =
                                            (if enable_memory_search_r v
                                             then handle_memory_search rt env st1 m user_id msgs
                                             else (msgs, st1))
                                      in (JObj (dict_set kvs ''messages'' (JList msgs')), st2))
                               | Not_found \<Rightarrow> (body, st)
                               | Raised e \<Rightarrow> (body, st))
                          | _ \<Rightarrow> (body, st)))
              | _ \<Rightarrow> (body, st)))"

section \<open>The tracking filter (pipelines/langfuse\_tracking.py)\<close>

record tracking_valves =
  enable_tracking :: bool
  enable_cost_tracking :: bool
  track_input_tokens :: bool
  track_output_tokens :: bool
  track_model_parameters :: bool
  anonymize_user_data :: bool
  exclude_system_messages :: bool
  max_content_length :: int
  cost_per_input_token :: rat
  cost_per_output_token :: rat

definition default_tracking_valves :: tracking_valves where
  "default_tracking_valves =
     \<lparr> enable_tracking = True,
       enable_cost_tracking = True,
       track_input_tokens = True,
       track_output_tokens = True,
       track_model_parameters = True,
       anonymize_user_data = False,
       exclude_system_messages = False,
       max_content_length = 10000,
       cost_per_input_token = float_lit (1 / 1000000),
       cost_per_output_token = float_lit (2 / 1000000) \<rparr>"

text \<open>\<open>_estimate_tokens\<close> and \<open>_calculate_cost\<close>.\<close>

definition estimate_tokens :: "string \<Rightarrow> int" where
  "estimate_tokens text = int (length text) div 4"

text \<open>\<open>if n\<close> on an \<open>Optional[int]\<close>.\<close>

definition some_nonzero :: "int option \<Rightarrow> bool" where
  "some_nonzero n = (case n of None \<Rightarrow> False | Some k \<Rightarrow> k \<noteq> 0)"

definition calculate_cost :: "tracking_valves \<Rightarrow> int option \<Rightarrow> int option \<Rightarrow> rat option" where
  "calculate_cost v input_tokens output_tokens =
     (if \<not> some_nonzero input_tokens \<and> \<not> some_nonzero output_tokens then None
      else
        (let cost0 = (0 :: rat);
             cost1 = (case input_tokens of
                        None \<Rightarrow> cost0
                      | Some n \<Rightarrow>
                          if n \<noteq> 0
                          then fadd cost0 (fmul (float_of_int n) (cost_per_input_token v))
                          else cost0);
             cost2 = (case output_tokens of
                        None \<Rightarrow> cost1
                      | Some n \<Rightarrow>
                          if n \<noteq> 0
                          then fadd cost1 (fmul (float_of_int n) (cost_per_output_token v))
                          else cost1)
         in Some (py_round cost2 6)))"

text \<open>\<open>int(x)\<close> of a float truncates towards zero.\<close>

definition py_int :: "rat \<Rightarrow> int" where
  "py_int x = (if 0 \<le> x then \<lfloor>x\<rfloor> else \<lceil>x\<rceil>)"

text \<open>\<open>_get_user_id\<close>.\<close>

definition get_user_id :: "runtime \<Rightarrow> tracking_valves \<Rightarrow> jdict option \<Rightarrow> json" where
  "get_user_id rt v user =
     (case user of
        None \<Rightarrow> JStr ''anonymous''
      | Some u \<Rightarrow>
          if u = [] then JStr ''anonymous''
          else
            (let get = (\<lambda>k. case map_of u k of None \<Rightarrow> JNull | Some x \<Rightarrow> x);
                 user_id = py_or (py_or (get ''id'') (get ''email'')) (get ''username'');
                 user_id' =
                   (if anonymize_user_data v \<and> truthy user_id
                    then JStr (take 16 (sha256_hex rt (py_str (render rt) user_id)))
                    else user_id)
             in py_or user_id' (JStr ''anonymous'')))"

text \<open>\<open>_get_conversation_id\<close>, at the time \<open>now\<close> that \<open>time.time()\<close> returns.\<close>

definition get_conversation_id ::
  "runtime \<Rightarrow> tracking_valves \<Rightarrow> rat \<Rightarrow> json \<Rightarrow> jdict option \<Rightarrow> exn + string" where
  "get_conversation_id rt v now body user =
     bind (dict_get body ''conversation_id'' JNull) (\<lambda>c1.
     bind (if truthy c1 then Inr c1 else dict_get body ''chat_id'' JNull) (\<lambda>conv_id.
     if \<not> truthy conv_id then
       Inr (py_str (render rt) (get_user_id rt v user) @ ''_'' @ show_int (py_int now))
     else Inr (py_str (render rt) conv_id)))"

text \<open>\<open>_extract_input_content\<close>.\<close>

fun without_system :: "json list \<Rightarrow> exn + json list" where
  "without_system [] = Inr []"
| "without_system (msg # msgs) =
     bind (dict_get msg ''role'' JNull) (\<lambda>role.
     bind (without_system msgs) (\<lambda>rest.
     Inr (if role \<noteq> JStr ''system'' then msg # rest else rest)))"

fun content_parts :: "runtime \<Rightarrow> json list \<Rightarrow> exn + string list" where
  "content_parts rt [] = Inr []"
| "content_parts rt (msg # msgs) =
     bind (dict_get msg ''role'' (JStr ''unknown'')) (\<lambda>role.
     bind (dict_get msg ''content'' (JStr [])) (\<lambda>content.
     bind (content_parts rt msgs) (\<lambda>rest.
     Inr ((py_str (render rt) role @ '': '' @ py_str (render rt) content) # rest))))"

definition truncate :: "tracking_valves \<Rightarrow> string \<Rightarrow> string" where
  "truncate v s =
     (if max_content_length v < int (length s)
      then slice_to s (max_content_length v) @ ''...'' else s)"

definition extract_input_content :: "runtime \<Rightarrow> tracking_valves \<Rightarrow> json \<Rightarrow> exn + string" where
  "extract_input_content rt v messages =
     bind (py_iter messages) (\<lambda>items.
     bind (if exclude_system_messages v then without_system items else Inr items) (\<lambda>msgs.
     bind (content_parts rt msgs) (\<lambda>parts.
     Inr (truncate v (join [CHR 0x0A] parts)))))"

text \<open>\<open>_extract_model_parameters\<close>.\<close>

definition extract_model_parameters :: "tracking_valves \<Rightarrow> jdict \<Rightarrow> jdict" where
  "extract_model_parameters v body =
     (if \<not> track_model_parameters v then []
      else
        concat (map (\<lambda>key. case map_of body key of None \<Rightarrow> [] | Some x \<Rightarrow> [(key, x)])
          [''temperature'', ''top_p'', ''max_tokens'', ''frequency_penalty'',
           ''presence_penalty'']))"

text \<open>\<open>key in x\<close> with a string key.\<close>

fun py_in :: "string \<Rightarrow> json \<Rightarrow> exn + bool" where
  "py_in k (JObj kvs) = Inr (map_of kvs k \<noteq> None)"
| "py_in k (JStr s) = Inr (contains s k)"
| "py_in k (JList xs) = Inr (JStr k \<in> set xs)"
| "py_in k _ = Inl TypeError"

text \<open>
  \<open>_extract_output_content\<close>, on an envelope that is a dict. The content is whatever
  the response holds: \<open>len\<close> and the slice raise on what is no string.
\<close>

definition truncate_output :: "tracking_valves \<Rightarrow> json \<Rightarrow> exn + json" where
  "truncate_output v content =
     bind (py_len content) (\<lambda>n.
     if max_content_length v < int n then
       (case content of
          JStr s \<Rightarrow> Inr (JStr (slice_to s (max_content_length v) @ ''...''))
        | _ \<Rightarrow> Inl TypeError)
     else Inr content)"

definition extract_output_content :: "runtime \<Rightarrow> tracking_valves \<Rightarrow> jdict \<Rightarrow> exn + json" where
  "extract_output_content rt v body =
     bind (case map_of body ''choices'' of
             None \<Rightarrow> Inr (JStr (render rt (JObj body)))
           | Some choices \<Rightarrow>
               if \<not> truthy choices then Inr (JStr (render rt (JObj body)))
               else
                 bind (getitem_int choices 0) (\<lambda>choice.
                 bind (py_in ''message'' choice) (\<lambda>has_message.
                 if has_message then
                   bind (getitem_key choice ''message'') (\<lambda>message.
                   dict_get message ''content'' (JStr []))
                 else Inr (JStr (render rt (JObj body))))))
       (truncate_output v)"

text \<open>
  The generation object that \<open>trace.generation\<close> returns, with the arguments of the
  call. \<open>gen_input_usage\<close> is the entry \<open>input\<close> of its attribute \<open>input_usage\<close>, and
  \<open>None\<close> when the object has no such attribute or the attribute no such entry.
\<close>

record generation =
  gen_name :: string
  gen_model :: json
  gen_input :: string
  gen_model_parameters :: jdict
  gen_message_count :: nat
  gen_user_id :: json
  gen_usage_input :: "int option"
  gen_input_usage :: "int option"

text \<open>An entry of \<open>self.active_traces\<close>; the entry \<open>trace\<close> is never read back.\<close>

record trace_data =
  td_generation :: "generation option"
  td_start_time :: rat

text \<open>The arguments of a call of \<open>generation.end\<close> that returned.\<close>

record generation_end =
  end_conversation_id :: string
  end_output :: json
  end_output_tokens :: "int option"
  end_response_time_ms :: rat
  end_cost_usd :: "rat option"

text \<open>
  The state of the \<open>Pipeline\<close> object: whether \<open>self.langfuse\<close> is set, the two
  dictionaries keyed by conversation id, and the generations ended so far.
\<close>

record tracking_state =
  langfuse_client :: bool
  active_traces :: "string \<rightharpoonup> trace_data"
  start_times :: "string \<rightharpoonup> rat"
  ended :: "generation_end list"

text \<open>
  The world during one call of a hook: whether the \<open>langfuse\<close> module was imported, the
  clock (one reading for the call), whether \<open>langfuse.trace\<close>, \<open>trace.generation\<close> and
  \<open>generation.end\<close> return rather than raise, and the \<open>input_usage\<close> of a generation
  object.
\<close>

record tracking_env =
  langfuse_available :: bool
  now :: rat
  trace_ok :: bool
  generation_ok :: bool
  end_ok :: bool
  sdk_input_usage :: "int option"

definition should_track :: "tracking_env \<Rightarrow> tracking_valves \<Rightarrow> tracking_state \<Rightarrow> bool" where
  "should_track env v st = (langfuse_available env \<and> enable_tracking v \<and> langfuse_client st)"

text \<open>\<open>_create_generation\<close>, for a trace that was created: \<open>None\<close> on every exception.\<close>

definition create_generation ::
  "runtime \<Rightarrow> tracking_env \<Rightarrow> tracking_valves \<Rightarrow> json \<Rightarrow> jdict option \<Rightarrow> generation option" where
  "create_generation rt env v body user =
     (case bind (dict_get body ''messages'' (JList [])) (\<lambda>messages.
           bind (dict_get body ''model'' (JStr ''unknown'')) (\<lambda>model.
           bind (extract_input_content rt v messages) (\<lambda>input_content.
           bind (py_len messages) (\<lambda>message_count.
           let input_tokens =
                 (if track_input_tokens v then Some (estimate_tokens input_content) else None)
           in if generation_ok env then
                Inr \<lparr> gen_name = ''LLM_Generation_'' @ py_str (render rt) model,
                      gen_model = model,
                      gen_input = input_content,
                      gen_model_parameters =
                        (case body of JObj kvs \<Rightarrow> extract_model_parameters v kvs | _ \<Rightarrow> []),
                      gen_message_count = message_count,
                      gen_user_id = get_user_id rt v user,
                      gen_usage_input = (if some_nonzero input_tokens then input_tokens else None),
                      gen_input_usage = sdk_input_usage env \<rparr>
              else Inl ValueError)))) of
        Inl e \<Rightarrow> None
      | Inr g \<Rightarrow> Some g)"

text \<open>
  \<open>inlet\<close>: the hook returns in every case, the envelope as \<open>body\<close> holds it then (the
  parsed one once \<open>json.loads\<close> has returned), and the state afterwards.
\<close>

definition tracking_inlet ::
  "runtime \<Rightarrow> tracking_env \<Rightarrow> tracking_valves \<Rightarrow> tracking_state \<Rightarrow> json \<Rightarrow> jdict option
     \<Rightarrow> json \<times> tracking_state" where
  "tracking_inlet rt env v st body0 user =
     (if \<not> should_track env v st then (body0, st)
      else
        case parse_body rt body0 of
          Inl e \<Rightarrow> (body0, st)
        | Inr body \<Rightarrow>
            (case get_conversation_id rt v (now env) body user of
               Inl e \<Rightarrow> (body, st)
             | Inr conversation_id \<Rightarrow>
                 (let st1 = st\<lparr>start_times := (start_times st)(conversation_id \<mapsto> now env)\<rparr>
                  in if trace_ok env then
                       (body,
                        st1\<lparr>active_traces := (active_traces st1)(conversation_id \<mapsto>
                               \<lparr> td_generation = create_generation rt env v body user,
                                 td_start_time = now env \<rparr>)\<rparr>)
                     else (body, st1))))"

text \<open>
  \<open>_update_generation\<close>, for a conversation id that has an entry; an exception ends in
  the handler, before the entries are deleted.
\<close>

definition update_generation ::
  "runtime \<Rightarrow> tracking_env \<Rightarrow> tracking_valves \<Rightarrow> tracking_state \<Rightarrow> string \<Rightarrow> jdict
     \<Rightarrow> tracking_state" where
  "update_generation rt env v st conversation_id body =
     (case active_traces st conversation_id of
        None \<Rightarrow> st
      | Some trace_data \<Rightarrow>
          (case td_generation trace_data of
             None \<Rightarrow> st
           | Some generation \<Rightarrow>
               (case bind (extract_output_content rt v body) (\<lambda>output_content.
                     bind (if track_output_tokens v
                           then map_sum id (\<lambda>n. Some (int n div 4)) (py_len output_content)
                           else Inr None) (\<lambda>output_tokens.
                     let response_time = now env - td_start_time trace_data;
                         input_tokens =
                           (case gen_input_usage generation of None \<Rightarrow> 0 | Some n \<Rightarrow> n);
                         cost = (if enable_cost_tracking v
                                 then calculate_cost v (Some input_tokens) output_tokens
                                 else None)
                     in if end_ok env then
                          Inr \<lparr> end_conversation_id = conversation_id,
                                end_output = output_content,
                                end_output_tokens = output_tokens,
                                end_response_time_ms = response_time * 1000,
                                end_cost_usd = cost \<rparr>
                        else Inl ValueError)) of
                  Inl e \<Rightarrow> st
                | Inr e \<Rightarrow>
                    st\<lparr>ended := ended st @ [e],
                       active_traces := (active_traces st)(conversation_id := None),
                       start_times := (start_times st)(conversation_id := None)\<rparr>)))"

text \<open>\<open>outlet\<close>.\<close>

definition tracking_outlet ::
  "runtime \<Rightarrow> tracking_env \<Rightarrow> tracking_valves \<Rightarrow> tracking_state \<Rightarrow> json \<Rightarrow> jdict option
     \<Rightarrow> json \<times> tracking_state" where
  "tracking_outlet rt env v st body0 user =
     (if \<not> should_track env v st then (body0, st)
      else
        case parse_body rt body0 of
          Inl e \<Rightarrow> (body0, st)
        | Inr body \<Rightarrow>
            (case get_conversation_id rt v (now env) body user of
               Inl e \<Rightarrow> (body, st)
             | Inr conversation_id \<Rightarrow>
                 (case body of
                    JObj kvs \<Rightarrow> (body, update_generation rt env v st conversation_id kvs)
                  | _ \<Rightarrow> (body, st))))"

section \<open>Runs and inputs of the properties\<close>

text \<open>
  A runtime for evaluating the hooks on concrete inputs: every string is rejected by
  \<open>json.loads\<close>, as a text that is not JSON is; the other parameters are not reached on
  the inputs evaluated below.
\<close>

definition plain_runtime :: runtime where
  "plain_runtime =
     \<lparr> json_loads = (\<lambda>s. None),
       render = (\<lambda>x. []),
       format_beyond = (\<lambda>t x. Inl ValueError),
       sha256_hex = (\<lambda>s. []) \<rparr>"

text \<open>A message, and an envelope that holds a list of messages and nothing else.\<close>

definition message :: "string \<Rightarrow> string \<Rightarrow> json" where
  "message role content = JObj [(''role'', JStr role), (''content'', JStr content)]"

definition envelope :: "json list \<Rightarrow> json" where
  "envelope msgs = JObj [(''messages'', JList msgs)]"

text \<open>
  The body of a reply of the search provider with a content and a list of citations,
  in the shape \<open>_perform_search\<close> reads, and a provider that gives this reply to every
  request.
\<close>

definition provider_reply :: "string \<Rightarrow> string list \<Rightarrow> json" where
  "provider_reply content citations =
     JObj [(''choices'', JList [JObj [(''message'', JObj [(''content'', JStr content)])]]),
           (''citations'', JList (map JStr citations))]"

definition stub_provider :: "string \<Rightarrow> string list \<Rightarrow> http_request \<Rightarrow> http_result" where
  "stub_provider content citations request = Response 200 (Some (provider_reply content citations))"





text \<open>
  An envelope whose list of messages is not empty and ends with a message of role
  \<open>user\<close> and content \<open>t\<close>.
\<close>

definition user_turn :: "json \<Rightarrow> string \<Rightarrow> bool" where
  "user_turn body t =
     (case body of
        JObj kvs \<Rightarrow>
          (case map_of kvs ''messages'' of
             Some (JList msgs) \<Rightarrow>
               msgs \<noteq> [] \<and>
               (case last msgs of
                  JObj m \<Rightarrow>
                    map_of m ''role'' = Some (JStr ''user'')
                    \<and> map_of m ''content'' = Some (JStr t)
                | _ \<Rightarrow> False)
           | _ \<Rightarrow> False)
      | _ \<Rightarrow> False)"

text \<open>
  A run of inbound calls on one filter object: each call comes with the behaviour of
  the memory library during it, its envelope and its user record.
\<close>

type_synonym memory_call = "memory_env \<times> json \<times> jdict option"

fun memory_run :: "runtime \<Rightarrow> memory_valves \<Rightarrow> memory_state \<Rightarrow> memory_call list \<Rightarrow> memory_state" where
  "memory_run rt v st [] = st"
| "memory_run rt v st ((env, body, user) # calls) =
     memory_run rt v (snd (memory_inlet rt env v st body user)) calls"

fun robust_run :: "runtime \<Rightarrow> robust_valves \<Rightarrow> robust_state \<Rightarrow> memory_call list \<Rightarrow> robust_state" where
  "robust_run rt v st [] = st"
| "robust_run rt v st ((env, body, user) # calls) =
     robust_run rt v (snd (robust_inlet rt env v st body user)) calls"

text \<open>A memory library that initialises and finds no memory.\<close>

definition empty_memory :: memory_env where
  "empty_memory = \<lparr> init_ok = True, mem_search = (\<lambda>q u l. Inr (JList [])) \<rparr>"

text \<open>A call of a session: an envelope with a conversation id, and the user's record.\<close>

definition session_call :: "string \<Rightarrow> string \<Rightarrow> memory_call" where
  "session_call session text =
     (empty_memory,
      JObj [(''conversation_id'', JStr session), (''messages'', JList [message ''user'' text])],
      Some [(''id'', JStr session)])"

text \<open>
  The tracking filter after \<open>on_startup\<close> with its keys configured and no turn open,
  and a tracing library whose calls all return, at the time \<open>t\<close>.
\<close>

definition initial_tracking_state :: tracking_state where
  "initial_tracking_state =
     \<lparr> langfuse_client = True, active_traces = Map.empty, start_times = Map.empty,
       ended = [] \<rparr>"

definition working_sdk :: "rat \<Rightarrow> tracking_env" where
  "working_sdk t =
     \<lparr> langfuse_available = True, now = t, trace_ok = True, generation_ok = True,
       end_ok = True, sdk_input_usage = None \<rparr>"

text \<open>A response in the OpenAI shape, with the content of its first choice.\<close>

definition response :: "string \<Rightarrow> json \<Rightarrow> json" where
  "response conversation content =
     JObj [(''conversation_id'', JStr conversation),
           (''choices'', JList [JObj [(''message'', JObj [(''content'', content)])]])]"

section \<open>Properties of the search trigger and of the query cleaning\<close>

lemma manual_trigger_found:
  "list_ex (\<lambda>trigger. contains (lower ''search: latest AI news'') trigger) manual_triggers"
  by code_simp

lemma hello_no_keyword:
  "\<not> list_ex (\<lambda>keyword. contains (lower ''hello there'') keyword)
        (search_trigger_keywords default_search_valves)"
  by code_simp

lemma hello_no_pattern:
  "\<not> list_ex (\<lambda>pattern. rx_search False pattern (lower ''hello there'')) question_patterns"
  by code_simp

text \<open>
  C4. With the manual trigger enabled, whatever the other options are, the trigger
  decision is true for the message \<open>search: latest AI news\<close>. With the manual trigger
  disabled and the default keywords, whatever the other options are, it is false for
  the message \<open>hello there\<close>, which holds no keyword and matches no pattern.
\<close>

theorem trigger_decision_examples:
  "should_perform_search (v\<lparr>enable_manual_search := True\<rparr>) (JStr ''search: latest AI news'')
     = Inr True
   \<and> should_perform_search
        (v\<lparr>enable_manual_search := False,
           search_trigger_keywords := search_trigger_keywords default_search_valves\<rparr>)
        (JStr ''hello there'') = Inr False"
  using manual_trigger_found hello_no_keyword hello_no_pattern
  by (simp add: should_perform_search_def Let_def)

text \<open>
  C3. For the message \<open>Can you search: what is the weather today\<close> the trigger decision
  is true, and the cleaned query is \<open>search: what is the weather today\<close>: the leading
  filler is removed, the manual prefix is not. The pattern of the prefixes is tried
  first and anchored at the start of the message, where the filler still stands.
\<close>

theorem query_cleaning_keeps_trigger:
  "should_perform_search default_search_valves
     (JStr ''Can you search: what is the weather today'') = Inr True
   \<and> clean_search_query ''Can you search: what is the weather today''
       = ''search: what is the weather today''"
  by code_simp

section \<open>Properties of the token estimate and of the cost\<close>

lemma cost_example:
  "calculate_cost default_tracking_valves (Some 1000000) (Some 500000) = Some 2"
  by code_simp

text \<open>
  C6. The token estimate of a text is its length divided by 4, rounded down: 1 for
  \<open>abcd\<close> and 0 for the empty text. At the default rates, the cost of 1000000 input
  tokens and 500000 output tokens, rounded to 6 decimal places, is 2.0.
\<close>

theorem token_estimate_and_cost:
  "estimate_tokens text = int (length text) div 4
   \<and> estimate_tokens ''abcd'' = 1
   \<and> estimate_tokens [] = 0
   \<and> calculate_cost default_tracking_valves (Some 1000000) (Some 500000) = Some 2"
  using cost_example by (simp add: estimate_tokens_def)

section \<open>Properties of the pending utterances\<close>

subsection \<open>Lists, dictionaries and envelopes\<close>

lemma seq_index_last: "xs \<noteq> [] \<Longrightarrow> seq_index xs (- 1) = Inr (last xs)"
  by (cases xs rule: rev_cases) (simp_all add: seq_index_def)


lemma list_insert_first: "list_insert xs 0 x = x # xs"
  by (simp add: list_insert_def)

lemma dict_set_same: "map_of kvs k = Some x \<Longrightarrow> dict_set kvs k x = kvs"
  by (induction kvs) (auto split: if_splits)

lemma map_of_dict_set: "map_of (dict_set kvs k x) k' = (if k' = k then Some x else map_of kvs k')"
  by (induction kvs) auto

lemma user_turnD:
  assumes "user_turn body t"
  obtains kvs msgs m where "body = JObj kvs" "map_of kvs ''messages'' = Some (JList msgs)"
    "msgs \<noteq> []" "last msgs = JObj m" "map_of m ''role'' = Some (JStr ''user'')"
    "map_of m ''content'' = Some (JStr t)"
proof (cases body)
  case (JObj kvs)
  with assms obtain msgs where ms: "map_of kvs ''messages'' = Some (JList msgs)"
    by (cases "map_of kvs ''messages''")
       (auto simp: user_turn_def split: json.split_asm)
  with assms JObj have ne: "msgs \<noteq> []" by (simp add: user_turn_def)
  from assms JObj ms obtain m where "last msgs = JObj m"
    "map_of m ''role'' = Some (JStr ''user'')" "map_of m ''content'' = Some (JStr t)"
    by (cases "last msgs") (simp_all add: user_turn_def)
  with JObj ms ne that show ?thesis by blast
qed (use assms in \<open>simp_all add: user_turn_def\<close>)

subsection \<open>The memory filter: one call, and a run of calls\<close>

lemma snd_add_memory_context:
  "snd (add_memory_context rt env v st a l u) = fst (get_memory env st)"
  by (simp add: add_memory_context_def split: prod.splits sum.splits)

lemma memory_inlet_state:
  assumes "user_turn body t"
  shows "snd (memory_inlet rt env v st body user) =
     (let st1 = (if enable_memory_storage v then
                   (let st' = st\<lparr>user_messages := user_messages st @ [JStr t]\<rparr>
                    in if store_cycles v \<le> int (length (user_messages st'))
                       then store_memories env st' (memory_user_id v user) else st')
                 else st)
      in if enable_memory_retrieval v then fst (get_memory env st1) else st1)"
proof -
  from assms obtain kvs msgs m where b: "body = JObj kvs"
    "map_of kvs ''messages'' = Some (JList msgs)"
    "msgs \<noteq> []" "last msgs = JObj m" "map_of m ''content'' = Some (JStr t)"
    by (rule user_turnD)
  show ?thesis
    using b
    by (simp add: memory_inlet_def parse_body_def bind_def seq_index_last Let_def
        snd_add_memory_context case_prod_beta)
qed


lemma all_strings_snoc:
  "all_strings (xs @ [JStr t]) = map_option (\<lambda>ts. ts @ [t]) (all_strings xs)"
  by (induction xs rule: all_strings.induct) (simp_all add: option.map_comp comp_def)

lemma all_strings_map: "all_strings (map JStr ts) = Some ts"
  by (induction ts) simp_all

lemma get_memory_fields:
  "user_messages (fst (get_memory env st)) = user_messages st"
  "dispatched (fst (get_memory env st)) = dispatched st"
  "m_ready st \<Longrightarrow> m_ready (fst (get_memory env st))"
  "m_ready st \<or> init_ok env \<Longrightarrow> snd (get_memory env st)"
  by (auto simp add: get_memory_def)

lemma memory_inlet_keeps:
  assumes "user_turn body t" "enable_memory_storage v"
    "int (length (user_messages st)) + 1 < store_cycles v"
  shows "user_messages (snd (memory_inlet rt env v st body user)) = user_messages st @ [JStr t]"
    and "dispatched (snd (memory_inlet rt env v st body user)) = dispatched st"
    and "m_ready st \<Longrightarrow> m_ready (snd (memory_inlet rt env v st body user))"
  using assms(2,3) by (simp_all add: memory_inlet_state [OF assms(1)] Let_def get_memory_fields)

lemma memory_inlet_flushes:
  assumes "user_turn body t" "enable_memory_storage v"
    "store_cycles v \<le> int (length (user_messages st)) + 1"
    "all_strings (user_messages st) = Some pre" "m_ready st \<or> init_ok env"
  shows "user_messages (snd (memory_inlet rt env v st body user)) = []"
    and "dispatched (snd (memory_inlet rt env v st body user))
           = dispatched st @ [(join '' '' (pre @ [t]), memory_user_id v user)]"
  using assms(2-)
  by (auto simp add: memory_inlet_state [OF assms(1)] Let_def get_memory_fields
      store_memories_def all_strings_snoc get_memory_def)

lemma memory_run_append:
  "memory_run rt v st (xs @ ys) = memory_run rt v (memory_run rt v st xs) ys"
  by (induction xs arbitrary: st) auto

lemma memory_run_accumulates:
  assumes "enable_memory_storage v"
    and "list_all2 (\<lambda>c t. user_turn (fst (snd c)) t) calls texts"
    and "int (length (user_messages st)) + int (length calls) < store_cycles v"
  shows "user_messages (memory_run rt v st calls) = user_messages st @ map JStr texts
         \<and> dispatched (memory_run rt v st calls) = dispatched st
         \<and> (m_ready st \<longrightarrow> m_ready (memory_run rt v st calls))"
  using assms(2,3)
proof (induction calls texts arbitrary: st rule: list_all2_induct)
  case Nil
  then show ?case by simp
next
  case (Cons c calls t texts)
  obtain env body user where c: "c = (env, body, user)" by (cases c)
  let ?st = "snd (memory_inlet rt env v st body user)"
  from Cons.hyps(1) c have ut: "user_turn body t" by simp
  from Cons.prems have lt: "int (length (user_messages st)) + 1 < store_cycles v" by simp
  note k = memory_inlet_keeps [OF ut assms(1) lt, of rt env user]
  from Cons.prems k(1)
  have "int (length (user_messages ?st)) + int (length calls) < store_cycles v" by simp
  from Cons.IH [OF this] k show ?case by (simp add: c)
qed


lemma memory_run_flush:
  assumes calls: "calls \<noteq> []"
    and turns: "list_all2 (\<lambda>c t. user_turn (fst (snd c)) t) calls texts"
    and v: "enable_memory_storage v" "store_cycles v = int (length calls)"
    and st: "user_messages st = []" "m_ready st \<or> init_ok (fst (last calls))"
  shows "user_messages (memory_run rt v st calls) = []
         \<and> dispatched (memory_run rt v st calls)
             = dispatched st @ [(join '' '' texts, memory_user_id v (snd (snd (last calls))))]"
proof -
  from calls obtain cs c where cs: "calls = cs @ [c]" by (cases calls rule: rev_cases) auto
  obtain env body user where c: "c = (env, body, user)" by (cases c)
  from turns cs obtain ts t where ts: "texts = ts @ [t]"
    "list_all2 (\<lambda>c t. user_turn (fst (snd c)) t) cs ts" "user_turn body t"
    by (auto simp: list_all2_append1 list_all2_Cons1 c)
  let ?st = "memory_run rt v st cs"
  from v(2) cs st(1) have "int (length (user_messages st)) + int (length cs) < store_cycles v"
    by simp
  from memory_run_accumulates [OF v(1) ts(2) this, of rt] st(1)
  have acc: "user_messages ?st = map JStr ts" "dispatched ?st = dispatched st"
    "m_ready st \<longrightarrow> m_ready ?st" by simp_all
  from ts(2) have len: "length ts = length cs" by (simp add: list_all2_lengthD)
  have le: "store_cycles v \<le> int (length (user_messages ?st)) + 1"
    using v(2) cs acc(1) len by simp
  have strs: "all_strings (user_messages ?st) = Some ts" by (simp add: acc(1) all_strings_map)
  have ok: "m_ready ?st \<or> init_ok env" using st(2) acc(3) cs c by auto
  note f = memory_inlet_flushes [OF ts(3) v(1) le strs ok, of rt user]
  show ?thesis using f acc(2) by (simp add: cs c memory_run_append ts(1))
qed

subsection \<open>The robust memory filter: one call, and a run of calls\<close>

lemma last_user_message_rev:
  assumes "msgs \<noteq> []" "last msgs = JObj m" "map_of m ''role'' = Some (JStr ''user'')"
    "map_of m ''content'' = Some (JStr t)" "t \<noteq> []"
  shows "last_user_message (rev msgs) = Found (strip t)"
  using assms by (cases msgs rule: rev_cases) simp_all

lemma snd_handle_memory_search:
  "snd (handle_memory_search rt env st m u msgs) = fst (get_memory_r env st)"
  by (simp add: handle_memory_search_def case_prod_beta Let_def split: sum.splits)

lemma strip_nonempty: "strip t \<noteq> [] \<Longrightarrow> t \<noteq> []"
  by (auto simp: strip_def)

lemma robust_inlet_state:
  assumes "user_turn body t" "strip t \<noteq> []"
  shows "snd (robust_inlet rt env v st body user) =
     (let st1 = (if enable_memory_storage_r v
                 then handle_memory_storage env v st (strip t) (JStr (mem_zero_user_r v))
                 else st)
      in if enable_memory_search_r v then fst (get_memory_r env st1) else st1)"
proof -
  from assms(1) obtain kvs msgs m where b: "body = JObj kvs"
    "map_of kvs ''messages'' = Some (JList msgs)"
    "msgs \<noteq> []" "last msgs = JObj m" "map_of m ''role'' = Some (JStr ''user'')"
    "map_of m ''content'' = Some (JStr t)"
    by (rule user_turnD)
  from assms(2) have "t \<noteq> []" by (rule strip_nonempty)
  from last_user_message_rev [OF b(3-6) this]
  show ?thesis
    using b(1,2,3) assms(2)
    by (simp add: robust_inlet_def Let_def snd_handle_memory_search case_prod_beta)
qed

lemma get_memory_r_fields:
  "user_messages_r (fst (get_memory_r env st)) = user_messages_r st"
  "dispatched_r (fst (get_memory_r env st)) = dispatched_r st"
  by (simp_all add: get_memory_r_def Let_def)

lemma get_memory_r_sound:
  assumes "\<not> init_failed st" "memory_available st = m_ready_r st" "init_ok env"
  shows "snd (get_memory_r env st)"
    and "\<not> init_failed (fst (get_memory_r env st))"
    and "memory_available (fst (get_memory_r env st)) = m_ready_r (fst (get_memory_r env st))"
  using assms by (auto simp add: get_memory_r_def Let_def)


lemma handle_memory_storage_keeps:
  assumes "int (length (user_messages_r st)) + 1 < store_cycles_r v"
  shows "handle_memory_storage env v st m u = st\<lparr>user_messages_r := user_messages_r st @ [m]\<rparr>"
  using assms by (simp add: handle_memory_storage_def Let_def)

lemma handle_memory_storage_flushes:
  assumes "store_cycles_r v \<le> int (length (user_messages_r st)) + 1"
    "\<not> init_failed st" "memory_available st = m_ready_r st" "init_ok env"
  shows "user_messages_r (handle_memory_storage env v st m u) = []"
    and "dispatched_r (handle_memory_storage env v st m u)
           = dispatched_r st @ [(join '' '' (user_messages_r st @ [m]), u)]"
    and "\<not> init_failed (handle_memory_storage env v st m u)"
    and "memory_available (handle_memory_storage env v st m u)
           = m_ready_r (handle_memory_storage env v st m u)"
  using assms by (auto simp add: handle_memory_storage_def get_memory_r_def Let_def)

lemma robust_inlet_keeps:
  assumes "user_turn body t" "strip t \<noteq> []" "enable_memory_storage_r v"
    "int (length (user_messages_r st)) + 1 < store_cycles_r v"
    "\<not> init_failed st" "memory_available st = m_ready_r st" "init_ok env"
  shows "user_messages_r (snd (robust_inlet rt env v st body user))
           = user_messages_r st @ [strip t]"
    and "dispatched_r (snd (robust_inlet rt env v st body user)) = dispatched_r st"
    and "\<not> init_failed (snd (robust_inlet rt env v st body user))"
    and "memory_available (snd (robust_inlet rt env v st body user))
           = m_ready_r (snd (robust_inlet rt env v st body user))"
  using assms(3-)
  by (auto simp add: robust_inlet_state [OF assms(1,2)] Let_def get_memory_r_fields
      handle_memory_storage_keeps get_memory_r_def)

lemma robust_inlet_flushes:
  assumes "user_turn body t" "strip t \<noteq> []" "enable_memory_storage_r v"
    "store_cycles_r v \<le> int (length (user_messages_r st)) + 1"
    "\<not> init_failed st" "memory_available st = m_ready_r st" "init_ok env"
  shows "user_messages_r (snd (robust_inlet rt env v st body user)) = []"
    and "dispatched_r (snd (robust_inlet rt env v st body user))
           = dispatched_r st
             @ [(join '' '' (user_messages_r st @ [strip t]), JStr (mem_zero_user_r v))]"
  using assms(3) handle_memory_storage_flushes [OF assms(4-7)]
  by (simp_all add: robust_inlet_state [OF assms(1,2)] Let_def get_memory_r_fields)

lemma robust_run_append:
  "robust_run rt v st (xs @ ys) = robust_run rt v (robust_run rt v st xs) ys"
  by (induction xs arbitrary: st) auto

lemma robust_run_accumulates:
  assumes "enable_memory_storage_r v"
    and "list_all2 (\<lambda>c t. user_turn (fst (snd c)) t) calls texts"
    and "list_all (\<lambda>t. strip t \<noteq> []) texts"
    and "list_all (\<lambda>c. init_ok (fst c)) calls"
    and "int (length (user_messages_r st)) + int (length calls) < store_cycles_r v"
    and "\<not> init_failed st" "memory_available st = m_ready_r st"
  shows "user_messages_r (robust_run rt v st calls) = user_messages_r st @ map strip texts
         \<and> dispatched_r (robust_run rt v st calls) = dispatched_r st
         \<and> \<not> init_failed (robust_run rt v st calls)
         \<and> memory_available (robust_run rt v st calls) = m_ready_r (robust_run rt v st calls)"
  using assms(2-)
proof (induction calls texts arbitrary: st rule: list_all2_induct)
  case Nil
  then show ?case by simp
next
  case (Cons c calls t texts)
  obtain env body user where c: "c = (env, body, user)" by (cases c)
  let ?st = "snd (robust_inlet rt env v st body user)"
  from Cons.hyps(1) c have ut: "user_turn body t" by simp
  from Cons.prems(1) have s: "strip t \<noteq> []" by simp
  from Cons.prems(2) c have ok: "init_ok env" by simp
  from Cons.prems(3) have lt: "int (length (user_messages_r st)) + 1 < store_cycles_r v" by simp
  note k = robust_inlet_keeps [OF ut s assms(1) lt Cons.prems(4,5) ok, of rt user]
  from Cons.prems(3) k(1)
  have "int (length (user_messages_r ?st)) + int (length calls) < store_cycles_r v" by simp
  from Cons.IH [OF _ _ this k(3,4)] Cons.prems(1,2) k(1,2) show ?case by (simp add: c)
qed

lemma robust_run_flush:
  assumes calls: "calls \<noteq> []"
    and turns: "list_all2 (\<lambda>c t. user_turn (fst (snd c)) t) calls texts"
    and texts: "list_all (\<lambda>t. strip t \<noteq> []) texts"
    and envs: "list_all (\<lambda>c. init_ok (fst c)) calls"
    and v: "enable_memory_storage_r v" "store_cycles_r v = int (length calls)"
    and st: "user_messages_r st = []" "\<not> init_failed st" "memory_available st = m_ready_r st"
  shows "user_messages_r (robust_run rt v st calls) = []
         \<and> dispatched_r (robust_run rt v st calls)
             = dispatched_r st @ [(join '' '' (map strip texts), JStr (mem_zero_user_r v))]"
proof -
  from calls obtain cs c where cs: "calls = cs @ [c]" by (cases calls rule: rev_cases) auto
  obtain env body user where c: "c = (env, body, user)" by (cases c)
  from turns cs obtain ts t where ts: "texts = ts @ [t]"
    "list_all2 (\<lambda>c t. user_turn (fst (snd c)) t) cs ts" "user_turn body t"
    by (auto simp: list_all2_append1 list_all2_Cons1 c)
  let ?st = "robust_run rt v st cs"
  from texts ts(1) have tx: "list_all (\<lambda>t. strip t \<noteq> []) ts" "strip t \<noteq> []" by simp_all
  from envs cs c have ev: "list_all (\<lambda>c. init_ok (fst c)) cs" "init_ok env" by simp_all
  from v(2) cs st(1)
  have "int (length (user_messages_r st)) + int (length cs) < store_cycles_r v" by simp
  from robust_run_accumulates [OF v(1) ts(2) tx(1) ev(1) this st(2,3), of rt] st(1)
  have acc: "user_messages_r ?st = map strip ts" "dispatched_r ?st = dispatched_r st"
    "\<not> init_failed ?st" "memory_available ?st = m_ready_r ?st" by simp_all
  from ts(2) have len: "length ts = length cs" by (simp add: list_all2_lengthD)
  have le: "store_cycles_r v \<le> int (length (user_messages_r ?st)) + 1"
    using v(2) cs acc(1) len by simp
  note f = robust_inlet_flushes [OF ts(3) tx(2) v(1) le acc(3,4) ev(2), of rt user]
  show ?thesis using f acc(1,2) by (simp add: cs c robust_run_append ts(1))
qed

subsection \<open>The flush after \<open>store_cycles\<close> calls\<close>

lemma three_turns:
  "list_all2 (\<lambda>c t. user_turn (fst (snd c)) t)
     [session_call ''alice'' ''I like tea'', session_call ''alice'' ''and cake'',
      session_call ''alice'' ''with jam'']
     [''I like tea'', ''and cake'', ''with jam'']"
  by (simp add: session_call_def user_turn_def message_def)

lemma three_texts: "list_all (\<lambda>t. strip t \<noteq> []) [''I like tea'', ''and cake'', ''with jam'']"
  by code_simp

text \<open>
  C1, as amended. Let \<open>store_cycles\<close> be the number of calls of a run, at least one,
  with storage enabled, each envelope ending with a user message of text \<open>t\<close>, and no
  error of the flush: for the memory filter the library is set up or can be at the
  last call; for the robust filter it can be set up at every call, and no text is
  blank. From an empty list of pending utterances, the list is empty after the run,
  and exactly one flush was started. Its text is the appended texts in the order of
  arrival, joined with one space between two texts (for the robust filter the
  appended texts are the stripped ones).
\<close>

theorem flush_after_store_cycles:
  assumes "calls \<noteq> []"
    and "list_all2 (\<lambda>c t. user_turn (fst (snd c)) t) calls texts"
    and "enable_memory_storage v" "store_cycles v = int (length calls)"
    and "user_messages st = []" "m_ready st \<or> init_ok (fst (last calls))"
    and "enable_memory_storage_r w" "store_cycles_r w = int (length calls)"
    and "user_messages_r rst = []" "\<not> init_failed rst" "memory_available rst = m_ready_r rst"
    and "list_all (\<lambda>c. init_ok (fst c)) calls" "list_all (\<lambda>t. strip t \<noteq> []) texts"
  shows "user_messages (memory_run rt v st calls) = []
         \<and> dispatched (memory_run rt v st calls)
             = dispatched st @ [(join '' '' texts, memory_user_id v (snd (snd (last calls))))]
         \<and> user_messages_r (robust_run rt w rst calls) = []
         \<and> dispatched_r (robust_run rt w rst calls)
             = dispatched_r rst @ [(join '' '' (map strip texts), JStr (mem_zero_user_r w))]"
  using memory_run_flush [OF assms(1,2,3,4,5,6), of rt]
    robust_run_flush [OF assms(1,2) assms(13,12) assms(7,8,9,10,11), of rt]
  by simp

text \<open>The theorem at three calls and the default \<open>store_cycles = 3\<close>.\<close>

theorem flush_after_store_cycles_witness:
  "user_messages (memory_run plain_runtime default_memory_valves initial_memory_state
      [session_call ''alice'' ''I like tea'', session_call ''alice'' ''and cake'',
       session_call ''alice'' ''with jam'']) = []
   \<and> dispatched (memory_run plain_runtime default_memory_valves initial_memory_state
      [session_call ''alice'' ''I like tea'', session_call ''alice'' ''and cake'',
       session_call ''alice'' ''with jam''])
      = [(''I like tea and cake with jam'', JStr ''alice'')]
   \<and> user_messages_r (robust_run plain_runtime default_robust_valves initial_robust_state
      [session_call ''alice'' ''I like tea'', session_call ''alice'' ''and cake'',
       session_call ''alice'' ''with jam'']) = []
   \<and> dispatched_r (robust_run plain_runtime default_robust_valves initial_robust_state
      [session_call ''alice'' ''I like tea'', session_call ''alice'' ''and cake'',
       session_call ''alice'' ''with jam''])
      = [(''I like tea and cake with jam'', JStr ''bailey'')]"
proof -
  let ?calls = "[session_call ''alice'' ''I like tea'', session_call ''alice'' ''and cake'',
                 session_call ''alice'' ''with jam'']"
  have s: "strip ''I like tea'' = ''I like tea''" "strip ''and cake'' = ''and cake''"
    "strip ''with jam'' = ''with jam''"
    by code_simp+
  have e: "list_all (\<lambda>c. init_ok (fst c)) ?calls"
    by (simp add: session_call_def empty_memory_def)
  have u: "memory_user_id default_memory_valves (Some [(''id'', JStr ''alice'')]) = JStr ''alice''"
    by (simp add: memory_user_id_def)
  have v: "enable_memory_storage default_memory_valves"
    "store_cycles default_memory_valves = int (length ?calls)"
    by (simp_all add: default_memory_valves_def)
  have w: "enable_memory_storage_r default_robust_valves"
    "store_cycles_r default_robust_valves = int (length ?calls)"
    "mem_zero_user_r default_robust_valves = ''bailey''"
    by (simp_all add: default_robust_valves_def)
  have i: "user_messages initial_memory_state = []" "dispatched initial_memory_state = []"
    "m_ready initial_memory_state \<or> init_ok (fst (last ?calls))"
    by (simp_all add: initial_memory_state_def session_call_def empty_memory_def)
  have r: "user_messages_r initial_robust_state = []" "dispatched_r initial_robust_state = []"
    "\<not> init_failed initial_robust_state"
    "memory_available initial_robust_state = m_ready_r initial_robust_state"
    by (simp_all add: initial_robust_state_def)
  have l: "snd (snd (last ?calls)) = Some [(''id'', JStr ''alice'')]"
    by (simp add: session_call_def)
  from flush_after_store_cycles [OF _ three_turns v i(1,3) w(1,2) r(1,3,4) e three_texts,
      of plain_runtime]
  show ?thesis
    unfolding l u by (simp add: s i(2) r(2) w(3))
qed

text \<open>
  C1 as stated fails: after two calls with the texts \<open>a\<close> and \<open>b\<close> and
  \<open>store_cycles = 2\<close>, the flushed text is \<open>a b\<close>, which is not the concatenation \<open>ab\<close>.
\<close>

theorem flush_joins_with_spaces:
  "dispatched (memory_run plain_runtime (default_memory_valves\<lparr>store_cycles := 2\<rparr>)
      initial_memory_state [session_call ''s'' ''a'', session_call ''s'' ''b''])
     = [(''a b'', JStr ''s'')]
   \<and> dispatched_r (robust_run plain_runtime (default_robust_valves\<lparr>store_cycles_r := 2\<rparr>)
      initial_robust_state [session_call ''s'' ''a'', session_call ''s'' ''b''])
     = [(''a b'', JStr ''bailey'')]
   \<and> ''a b'' \<noteq> ''a'' @ ''b''"
  by code_simp

subsection \<open>One list of pending utterances for all sessions\<close>








section \<open>Properties of the hooks on empty and on serialised envelopes\<close>

text \<open>
  C2. On an envelope (a dict) whose list of messages is empty, and for every user
  record, every hook returns the envelope as it is: the inbound and the outbound
  hook of the search filter, the inbound hooks of the two memory filters, which have
  no outbound hook and leave their state as it is, and both hooks of the tracking
  filter.
\<close>

theorem empty_messages_unchanged:
  assumes "map_of kvs ''messages'' = Some (JList [])"
  shows "search_inlet rt post sv (JObj kvs) user = Inr (JObj kvs)
   \<and> search_outlet sv (JObj kvs) user = Inr (JObj kvs)
   \<and> memory_inlet rt menv mv st (JObj kvs) user = (Inr (JObj kvs), st)
   \<and> robust_inlet rt menv rv rst (JObj kvs) user = (JObj kvs, rst)
   \<and> fst (tracking_inlet rt tenv tv tst (JObj kvs) user) = JObj kvs
   \<and> fst (tracking_outlet rt tenv tv tst (JObj kvs) user) = JObj kvs"
  using assms
  by (simp add: search_inlet_def search_outlet_def memory_inlet_def robust_inlet_def
      tracking_inlet_def tracking_outlet_def parse_body_def bind_def Let_def
      split: sum.splits)

text \<open>The theorem at an envelope with an empty list of messages and a model name.\<close>

theorem empty_messages_unchanged_witness:
  "search_inlet plain_runtime (stub_provider ''x'' []) default_search_valves
       (JObj [(''messages'', JList []), (''model'', JStr ''m'')]) None
     = Inr (JObj [(''messages'', JList []), (''model'', JStr ''m'')])
   \<and> search_outlet default_search_valves
       (JObj [(''messages'', JList []), (''model'', JStr ''m'')]) None
     = Inr (JObj [(''messages'', JList []), (''model'', JStr ''m'')])
   \<and> memory_inlet plain_runtime empty_memory default_memory_valves initial_memory_state
       (JObj [(''messages'', JList []), (''model'', JStr ''m'')]) None
     = (Inr (JObj [(''messages'', JList []), (''model'', JStr ''m'')]), initial_memory_state)
   \<and> robust_inlet plain_runtime empty_memory default_robust_valves initial_robust_state
       (JObj [(''messages'', JList []), (''model'', JStr ''m'')]) None
     = (JObj [(''messages'', JList []), (''model'', JStr ''m'')], initial_robust_state)
   \<and> fst (tracking_inlet plain_runtime (working_sdk 100) default_tracking_valves
       initial_tracking_state (JObj [(''messages'', JList []), (''model'', JStr ''m'')]) None)
     = JObj [(''messages'', JList []), (''model'', JStr ''m'')]
   \<and> fst (tracking_outlet plain_runtime (working_sdk 100) default_tracking_valves
       initial_tracking_state (JObj [(''messages'', JList []), (''model'', JStr ''m'')]) None)
     = JObj [(''messages'', JList []), (''model'', JStr ''m'')]"
proof -
  have "map_of [(''messages'', JList []), (''model'', JStr ''m'')] ''messages'' = Some (JList [])"
    by simp
  from empty_messages_unchanged [OF this] show ?thesis by blast
qed

text \<open>
  C8. On a body that is a string which \<open>json.loads\<close> rejects, the inbound hooks of the
  search filter and of the memory filter raise \<open>JSONDecodeError\<close>: they call
  \<open>json.loads\<close> outside any \<open>try\<close>. The robust memory filter and the tracking filter
  catch the exception and return the string.
\<close>

theorem unguarded_json_loads:
  assumes "json_loads rt s = None"
  shows "search_inlet rt post sv (JStr s) user = Inl JSONDecodeError
   \<and> memory_inlet rt menv mv st (JStr s) user = (Inl JSONDecodeError, st)
   \<and> robust_inlet rt menv rv rst (JStr s) user = (JStr s, rst)
   \<and> tracking_inlet rt tenv tv tst (JStr s) user = (JStr s, tst)
   \<and> tracking_outlet rt tenv tv tst (JStr s) user = (JStr s, tst)"
  using assms
  by (simp add: search_inlet_def memory_inlet_def robust_inlet_def
      tracking_inlet_def tracking_outlet_def parse_body_def bind_def Let_def)

text \<open>The theorem at the body \<open>not json\<close>.\<close>

theorem unguarded_json_loads_witness:
  "json_loads plain_runtime ''not json'' = None
   \<and> search_inlet plain_runtime (stub_provider ''x'' []) default_search_valves
       (JStr ''not json'') None = Inl JSONDecodeError
   \<and> memory_inlet plain_runtime empty_memory default_memory_valves initial_memory_state
       (JStr ''not json'') None = (Inl JSONDecodeError, initial_memory_state)
   \<and> robust_inlet plain_runtime empty_memory default_robust_valves initial_robust_state
       (JStr ''not json'') None = (JStr ''not json'', initial_robust_state)
   \<and> tracking_inlet plain_runtime (working_sdk 100) default_tracking_valves
       initial_tracking_state (JStr ''not json'') None
       = (JStr ''not json'', initial_tracking_state)
   \<and> tracking_outlet plain_runtime (working_sdk 100) default_tracking_valves
       initial_tracking_state (JStr ''not json'') None
       = (JStr ''not json'', initial_tracking_state)"
proof -
  have h: "json_loads plain_runtime ''not json'' = None" by (simp add: plain_runtime_def)
  from unguarded_json_loads [OF h] h show ?thesis by blast
qed

section \<open>Properties of the tracking filter\<close>

text \<open>
  C7. The conversation id depends on the clock only through the whole second: at two
  times of the same second, the same envelope and user record give the same id. An
  envelope that carries a non-empty \<open>conversation_id\<close> gets it as the id, whatever else
  it carries; one that carries no \<open>conversation_id\<close> (or an empty one) and a non-empty
  \<open>chat_id\<close> gets the \<open>chat_id\<close>. Neither is then synthesised from the user and the
  time.
\<close>

theorem conversation_id_resolution:
  "(py_int t1 = py_int t2 \<longrightarrow>
      get_conversation_id rt v t1 body user = get_conversation_id rt v t2 body user)
   \<and> (map_of kvs ''conversation_id'' = Some (JStr c) \<and> c \<noteq> [] \<longrightarrow>
      get_conversation_id rt v t (JObj kvs) user = Inr c)
   \<and> ((case map_of kvs ''conversation_id'' of None \<Rightarrow> True | Some x \<Rightarrow> \<not> truthy x)
        \<and> map_of kvs ''chat_id'' = Some (JStr c) \<and> c \<noteq> [] \<longrightarrow>
      get_conversation_id rt v t (JObj kvs) user = Inr c)"
  by (simp add: get_conversation_id_def bind_def split: sum.splits option.splits)

text \<open>
  The theorem at two times of one second, at an envelope with both identifiers, and
  at an envelope with a \<open>chat_id\<close> only.
\<close>

theorem conversation_id_resolution_witness:
  "py_int (1700000000 + 1 / 4) = py_int (1700000000 + 3 / 4)
   \<and> get_conversation_id plain_runtime default_tracking_valves (1700000000 + 1 / 4)
         (envelope []) (Some [(''id'', JStr ''u7'')])
       = get_conversation_id plain_runtime default_tracking_valves (1700000000 + 3 / 4)
         (envelope []) (Some [(''id'', JStr ''u7'')])
   \<and> get_conversation_id plain_runtime default_tracking_valves 1700000000
         (JObj [(''conversation_id'', JStr ''c42''), (''chat_id'', JStr ''other'')])
         (Some [(''id'', JStr ''u7'')])
       = Inr ''c42''
   \<and> get_conversation_id plain_runtime default_tracking_valves 1700000000
         (JObj [(''chat_id'', JStr ''chat9'')]) (Some [(''id'', JStr ''u7'')])
       = Inr ''chat9''"
proof -
  have t: "py_int (1700000000 + 1 / 4) = py_int (1700000000 + 3 / 4)"
    by code_simp
  note r = conversation_id_resolution [where ?t1.0 = "1700000000 + 1 / 4"
      and ?t2.0 = "1700000000 + 3 / 4" and rt = plain_runtime and v = default_tracking_valves
      and body = "envelope []" and user = "Some [(''id'', JStr ''u7'')]" and t = 1700000000]
  from r [where kvs = "[(''conversation_id'', JStr ''c42''), (''chat_id'', JStr ''other'')]"
      and c = "''c42''"]
    r [where kvs = "[(''chat_id'', JStr ''chat9'')]" and c = "''chat9''"] t
  show ?thesis by simp
qed

text \<open>
  C9. A turn whose response has the content \<open>null\<close> in its first choice (as a response
  made of tool calls has): the inbound hook adds the entries of the conversation
  \<open>c1\<close> to both dictionaries, and after the outbound hook both entries are still
  there. \<open>len(content)\<close> raises in \<open>_extract_output_content\<close>, and the handler is
  reached before the entries are deleted.
\<close>

theorem failed_turn_keeps_entries:
  "(let st1 = snd (tracking_inlet plain_runtime (working_sdk 100) default_tracking_valves
            initial_tracking_state
            (JObj [(''conversation_id'', JStr ''c1''), (''messages'', JList [message ''user'' ''hi''])])
            None);
         st2 = snd (tracking_outlet plain_runtime (working_sdk 101) default_tracking_valves st1
            (response ''c1'' JNull) None)
     in active_traces st2 ''c1'' \<noteq> None \<and> start_times st2 ''c1'' = Some 100)"
  by code_simp

section \<open>Properties of the insertion of search results\<close>












end
